theory Spec2Isabelle
  imports Complex_Main "HOL-Library.AList"
begin

section \<open>JavaScript values, promises and the host\<close>

text \<open>
  The values that cross the messaging boundary. A JavaScript number is a finite
  real or NaN (the infinities behave like any non-zero number in every test the
  code makes and are left out). An object is its list of properties, in
  insertion order; a property holding \<open>undefined\<close> is still a property.
\<close>

datatype jsval =
    JUndefined
  | JNull
  | JBool bool
  | JNum real
  | JNaN
  | JStr string
  | JArr "jsval list"
  | JObj "(string \<times> jsval) list"

type_synonym jsobject = "(string \<times> jsval) list"

text \<open>JavaScript's ToBoolean: what \<open>if (v)\<close> and \<open>!v\<close> test.\<close>

fun truthy :: "jsval \<Rightarrow> bool" where
  "truthy JUndefined = False"
| "truthy JNull = False"
| "truthy (JBool b) = b"
| "truthy (JNum r) = (r \<noteq> 0)"
| "truthy JNaN = False"
| "truthy (JStr s) = (s \<noteq> [])"
| "truthy (JArr _) = True"
| "truthy (JObj _) = True"

text \<open>\<open>Object.assign(target, source)\<close>: each property of the source is set on the target.\<close>

definition Object_assign :: "jsobject \<Rightarrow> jsobject \<Rightarrow> jsobject" where
  "Object_assign target source = foldl (\<lambda>t (k, v). AList.update k v t) target source"

text \<open>
  The values a promise is rejected with in this module: \<open>new Error(message)\<close>,
  the TypeError of a property read on \<open>undefined\<close> or \<open>null\<close> (or of iterating
  \<open>undefined\<close>), and the string thrown by \<open>getComparisonFunction\<close>.
\<close>

datatype js_error = Error string | TypeError | Thrown string

text \<open>
  A promise, observed once the chain it heads has run as far as it can:
  resolved with a value, rejected with an error, or never settled (the host
  never called back). A handler attached to a promise that never settles never
  runs.
\<close>

datatype 'a promise = Resolved 'a | Rejected js_error | Pending

text \<open>
  What the host does with a callback: it invokes it once, with
  \<open>chrome.runtime.lastError\<close> set (to an object with that message) or unset,
  or it never invokes it.
\<close>

datatype 'a callback = Invoked "string option" 'a | NeverInvoked

record tab =
  tab_id :: nat
  url :: string
  title :: string

text \<open>
  A log entry, with the properties of the source's \<open>Document\<close> typedef; the
  optional ones are \<open>None\<close> when the property is absent (\<open>undefined\<close>).
\<close>

record document =
  verb :: string
  doc_id :: string
  match :: string
  date :: real
  range_of :: "jsval option"
  className :: "string option"
  text_of :: "string option"
  doc_title :: "string option"
  correspondingDocumentId :: "string option"

record style_definition =
  def_className :: string
  def_title :: string

text \<open>
  Everything the module does to the outside world, in order: the calls it makes
  into the host (\<open>chrome.tabs\<close>, the style store, the log store), the line it
  writes with \<open>console.error\<close> and the invocations of the caller's
  \<open>onPlaybackError\<close> callback.
\<close>

datatype event =
    TabsSendMessage nat jsobject
  | TabsExecuteScript nat jsobject
  | TabsGet nat
  | StorageGetAll
  | DBGetMatchingDocuments string bool
  | DBSortDocuments "document list"
  | ConsoleError string
  | OnPlaybackError document

type_synonym trace = "event list"

text \<open>
  The host is any deterministic environment: its answer to a call is a function
  of the call and of everything that happened before it. \<open>storage_getAll\<close>
  answers \<open>new ChromeHighlightStorage().getAll()\<close> with the value of
  \<open>items[ChromeHighlightStorage.KEYS.HIGHLIGHT_DEFINITIONS]\<close> (\<open>None\<close> when that
  property is \<open>undefined\<close>); \<open>i18n_getMessage\<close> is \<open>chrome.i18n.getMessage\<close>.
\<close>

record host =
  tabs_sendMessage :: "trace \<Rightarrow> nat \<Rightarrow> jsobject \<Rightarrow> jsval callback"
  tabs_executeScript :: "trace \<Rightarrow> nat \<Rightarrow> jsobject \<Rightarrow> jsval callback"
  tabs_get :: "trace \<Rightarrow> nat \<Rightarrow> tab option callback"
  storage_getAll :: "trace \<Rightarrow> style_definition list option promise"
  i18n_getMessage :: "string \<Rightarrow> string list \<Rightarrow> string"

text \<open>
  An asynchronous computation over a state \<open>'s\<close> (the trace, together with the
  variables a closure captures): it runs until its promise settles or stalls.
\<close>

type_synonym ('s, 'a) async = "'s \<Rightarrow> 'a promise \<times> 's"

definition Promise_resolve :: "'a \<Rightarrow> ('s, 'a) async" where
  "Promise_resolve v s = (Resolved v, s)"

definition Promise_reject :: "js_error \<Rightarrow> ('s, 'a) async" where
  "Promise_reject e s = (Rejected e, s)"

text \<open>\<open>p.then(f)\<close>: \<open>f\<close> runs on the value once \<open>p\<close> resolves; a rejection passes through.\<close>

definition then_p :: "('s, 'a) async \<Rightarrow> ('a \<Rightarrow> ('s, 'b) async) \<Rightarrow> ('s, 'b) async" where
  "then_p p f s =
     (case p s of
        (Resolved v, s') \<Rightarrow> f v s'
      | (Rejected e, s') \<Rightarrow> (Rejected e, s')
      | (Pending, s') \<Rightarrow> (Pending, s'))"

text \<open>\<open>p.catch(f)\<close>: \<open>f\<close> runs on the error once \<open>p\<close> rejects; a value passes through.\<close>

definition catch_p :: "('s, 'a) async \<Rightarrow> (js_error \<Rightarrow> ('s, 'a) async) \<Rightarrow> ('s, 'a) async" where
  "catch_p p f s =
     (case p s of
        (Resolved v, s') \<Rightarrow> (Resolved v, s')
      | (Rejected e, s') \<Rightarrow> f e s'
      | (Pending, s') \<Rightarrow> (Pending, s'))"

text \<open>
  Modelled from the spec: \<open>PromiseUtils.serial\<close> is not among the sources. The
  spec's Serial Promise Runner executes the thunks one at a time, starting the
  next only after the previous settles; a thunk that fails fails the whole run
  with that failure and later thunks do not run; the run succeeds with the
  results in input order.
\<close>

fun serial :: "('s, 'a) async list \<Rightarrow> ('s, 'a list) async" where
  "serial [] s = (Resolved [], s)"
| "serial (f # fs) s =
     (case f s of
        (Resolved v, s') \<Rightarrow>
          (case serial fs s' of
             (Resolved vs, s'') \<Rightarrow> (Resolved (v # vs), s'')
           | (Rejected e, s'') \<Rightarrow> (Rejected e, s'')
           | (Pending, s'') \<Rightarrow> (Pending, s''))
      | (Rejected e, s') \<Rightarrow> (Rejected e, s')
      | (Pending, s') \<Rightarrow> (Pending, s'))"

section \<open>Script injection and the Tab Messenger\<close>

definition DEFAULT_SCRIPTS :: "string list" where
  "DEFAULT_SCRIPTS =
     [''js/main/chrome_storage.js'', ''js/main/chrome_highlight_storage.js'',
      ''js/utils.js'',
      ''js/stylesheet.js'',
      ''js/content_script/range_utils.js'',
      ''js/content_script/highlighter.js'',
      ''js/content_script/content_script.js'']"

text \<open>The \<open>files\<close> argument of \<open>executeScript\<close>: one file, or an array.\<close>

datatype files = File string | Files "files list"

text \<open>
  \<open>executeScript(files, details)\<close>. An array is injected file by file through
  \<open>serial\<close>; one file is one \<open>chrome.tabs.executeScript\<close> call, whose callback
  rejects on \<open>lastError\<close> and resolves with the result otherwise.
\<close>

fun executeScript :: "host \<Rightarrow> nat \<Rightarrow> files \<Rightarrow> jsobject \<Rightarrow> (trace, jsval) async" where
  "executeScript h tabId (Files fs) details =
     then_p (serial (map (\<lambda>f. executeScript h tabId f details) fs))
       (\<lambda>results. Promise_resolve (JArr results))"
| "executeScript h tabId (File f) details =
     (\<lambda>tr. let arg = Object_assign [(''file'', JStr f)] details in
        (case tabs_executeScript h tr tabId arg of
           Invoked (Some msg) result \<Rightarrow> Rejected (Error msg)
         | Invoked None result \<Rightarrow> Resolved result
         | NeverInvoked \<Rightarrow> Pending,
         tr @ [TabsExecuteScript tabId arg]))"

definition executeDefaultScript :: "host \<Rightarrow> nat \<Rightarrow> jsobject \<Rightarrow> (trace, jsval) async" where
  "executeDefaultScript h tabId details =
     executeScript h tabId (Files (map File DEFAULT_SCRIPTS)) details"

text \<open>
  \<open>sendMessageInternal(message)\<close>: one \<open>chrome.tabs.sendMessage\<close> call. The
  callback rejects on \<open>lastError\<close>, resolves with a defined response and
  rejects with "Undefined response" otherwise.
\<close>

definition sendMessageInternal :: "host \<Rightarrow> nat \<Rightarrow> jsobject \<Rightarrow> (trace, jsval) async" where
  "sendMessageInternal h tabId message tr =
     (case tabs_sendMessage h tr tabId message of
        Invoked (Some msg) response \<Rightarrow> Rejected (Error msg)
      | Invoked None response \<Rightarrow>
          (if response \<noteq> JUndefined then Resolved response
           else Rejected (Error ''Undefined response''))
      | NeverInvoked \<Rightarrow> Pending,
      tr @ [TabsSendMessage tabId message])"

text \<open>
  \<open>sendMessage(message, { executeDefaultScript = false } = {})\<close>. The \<open>catch\<close>
  handler sees a rejection of the injection as well as one of the delivery.
\<close>

function sendMessage :: "host \<Rightarrow> nat \<Rightarrow> jsobject \<Rightarrow> bool \<Rightarrow> (trace, jsval) async" where
  "sendMessage h tabId message executeDefaultScript_opt =
     catch_p
       (then_p
          (if executeDefaultScript_opt
           then executeDefaultScript h tabId []
           else Promise_resolve JUndefined)
          (\<lambda>_. sendMessageInternal h tabId message))
       (\<lambda>e. if \<not> executeDefaultScript_opt
            then sendMessage h tabId message True
            else Promise_reject e)"
  by pat_completeness auto
termination
  by (relation "measure (\<lambda>(h, tabId, message, opt). if opt then 0 else 1)") auto

declare sendMessage.simps [simp del]

section \<open>Highlight Command Layer\<close>

definition MESSAGE_ID_CREATE_HIGHLIGHT :: string where
  "MESSAGE_ID_CREATE_HIGHLIGHT = ''create_highlight''"

definition MESSAGE_ID_DELETE_HIGHLIGHT :: string where
  "MESSAGE_ID_DELETE_HIGHLIGHT = ''delete_highlight''"

definition MESSAGE_ID_SELECT_HIGHLIGHT :: string where
  "MESSAGE_ID_SELECT_HIGHLIGHT = ''select_highlight''"

definition MESSAGE_ID_SELECT_RANGE :: string where
  "MESSAGE_ID_SELECT_RANGE = ''select_range''"

definition MESSAGE_ID_IS_HIGHLIGHT_IN_DOM :: string where
  "MESSAGE_ID_IS_HIGHLIGHT_IN_DOM = ''is_highlight_in_dom''"

definition MESSAGE_ID_GET_BOUNDING_CLIENT_RECT :: string where
  "MESSAGE_ID_GET_BOUNDING_CLIENT_RECT = ''get_bounding_client_rect''"

definition createHighlight :: "host \<Rightarrow> nat \<Rightarrow> jsval \<Rightarrow> jsval \<Rightarrow> jsval \<Rightarrow> (trace, jsval) async" where
  "createHighlight h tabId range_arg className_arg highlightId =
     sendMessage h tabId
       [(''id'', JStr MESSAGE_ID_CREATE_HIGHLIGHT),
        (''range'', range_arg),
        (''highlightId'', highlightId),
        (''className'', className_arg)] False"

definition deleteHighlight :: "host \<Rightarrow> nat \<Rightarrow> jsval \<Rightarrow> (trace, jsval) async" where
  "deleteHighlight h tabId highlightId =
     sendMessage h tabId
       [(''id'', JStr MESSAGE_ID_DELETE_HIGHLIGHT),
        (''highlightId'', highlightId)] False"

text \<open>
  \<open>selectHighlight(highlightId)\<close> and \<open>selectRange(xrange)\<close>: the property is
  set on the message under \<open>if (highlightId)\<close>, respectively \<open>if (xrange)\<close>.
\<close>

definition selectHighlight :: "host \<Rightarrow> nat \<Rightarrow> jsval \<Rightarrow> (trace, jsval) async" where
  "selectHighlight h tabId highlightId =
     (let message = [(''id'', JStr MESSAGE_ID_SELECT_HIGHLIGHT)];
          message = (if truthy highlightId
                     then AList.update ''highlightId'' highlightId message
                     else message)
      in sendMessage h tabId message False)"

definition selectRange :: "host \<Rightarrow> nat \<Rightarrow> jsval \<Rightarrow> (trace, jsval) async" where
  "selectRange h tabId xrange =
     (let message = [(''id'', JStr MESSAGE_ID_SELECT_RANGE)];
          message = (if truthy xrange
                     then AList.update ''xrange'' xrange message
                     else message)
      in sendMessage h tabId message False)"

definition isHighlightInDOM :: "host \<Rightarrow> nat \<Rightarrow> jsval \<Rightarrow> (trace, jsval) async" where
  "isHighlightInDOM h tabId highlightId =
     sendMessage h tabId
       [(''id'', JStr MESSAGE_ID_IS_HIGHLIGHT_IN_DOM),
        (''highlightId'', highlightId)] False"

definition getHighlightBoundingClientRect :: "host \<Rightarrow> nat \<Rightarrow> jsval \<Rightarrow> (trace, jsval) async" where
  "getHighlightBoundingClientRect h tabId highlightId =
     sendMessage h tabId
       [(''id'', JStr MESSAGE_ID_GET_BOUNDING_CLIENT_RECT),
        (''highlightId'', highlightId)] False"

section \<open>Document playback\<close>

text \<open>
  Modelled from the spec: the \<open>DB\<close> class is not among the sources. The spec's
  data model gives a log entry's verb as \<open>create\<close> or \<open>delete\<close>.
\<close>

definition DB_DOCUMENT_VERB_CREATE :: string where
  "DB_DOCUMENT_VERB_CREATE = ''create''"

definition DB_DOCUMENT_VERB_DELETE :: string where
  "DB_DOCUMENT_VERB_DELETE = ''delete''"

text \<open>Reading an optional property: \<open>undefined\<close> when it is absent.\<close>

definition opt_val :: "jsval option \<Rightarrow> jsval" where
  "opt_val v = (case v of None \<Rightarrow> JUndefined | Some x \<Rightarrow> x)"

definition opt_str :: "string option \<Rightarrow> jsval" where
  "opt_str v = (case v of None \<Rightarrow> JUndefined | Some x \<Rightarrow> JStr x)"

text \<open>
  A computation on the trace, run inside a closure whose captured variable is
  the first component of the state.
\<close>

definition in_closure :: "(trace, 'a) async \<Rightarrow> ('c \<times> trace, 'a) async" where
  "in_closure p = (\<lambda>(c, tr). case p tr of (r, tr') \<Rightarrow> (r, (c, tr')))"

text \<open>
  The "main promise" of one playback thunk: the \<open>switch\<close> on the verb. The
  captured variable is \<open>sum\<close>; it is updated before the command is sent.
\<close>

definition playback_main_promise :: "host \<Rightarrow> nat \<Rightarrow> document \<Rightarrow> (int \<times> trace, jsval) async" where
  "playback_main_promise h tabId doc =
     (\<lambda>(sum, tr).
        if verb doc = DB_DOCUMENT_VERB_CREATE then
          in_closure
            (createHighlight h tabId (opt_val (range_of doc)) (opt_str (className doc)) (JStr (doc_id doc)))
            (sum + 1, tr)
        else if verb doc = DB_DOCUMENT_VERB_DELETE then
          in_closure
            (deleteHighlight h tabId (opt_str (correspondingDocumentId doc)))
            (sum - 1, tr)
        else
          Promise_resolve (JBool False) (sum, tr @ [ConsoleError ''unknown verb'']))"

text \<open>
  The caller's \<open>onPlaybackError\<close>: a function that, called with an entry,
  returns normally (\<open>None\<close>) or throws. Like the host it may depend on what
  happened before. What it returns is not looked at.
\<close>

type_synonym playback_callback = "trace \<Rightarrow> document \<Rightarrow> js_error option"

text \<open>
  One thunk: the main promise, then the wrapper, which calls
  \<open>onPlaybackError(doc)\<close> under \<open>if (!ok && onPlaybackError)\<close>. The call is made
  inside the \<open>then\<close> handler, so a callback that throws rejects the thunk
  ("thrown errors are unhandled"). The argument is \<open>None\<close> when the caller
  passed no callback.
\<close>

definition playback_thunk ::
  "host \<Rightarrow> nat \<Rightarrow> playback_callback option \<Rightarrow> document \<Rightarrow> (int \<times> trace, jsval) async" where
  "playback_thunk h tabId onPlaybackError doc =
     then_p (playback_main_promise h tabId doc)
       (\<lambda>ok. \<lambda>(sum, tr).
          case (\<not> truthy ok, onPlaybackError) of
            (True, Some callback) \<Rightarrow>
              (case callback tr doc of
                 None \<Rightarrow> (Resolved JUndefined, (sum, tr @ [OnPlaybackError doc]))
               | Some thrown \<Rightarrow> (Rejected thrown, (sum, tr @ [OnPlaybackError doc])))
          | _ \<Rightarrow> (Resolved JUndefined, (sum, tr)))"

text \<open>The run from a given value of \<open>sum\<close>: the thunks in series, then \<open>sum\<close>.\<close>

definition playback_run ::
  "host \<Rightarrow> nat \<Rightarrow> playback_callback option \<Rightarrow> document list \<Rightarrow> int \<times> trace
     \<Rightarrow> int promise \<times> trace" where
  "playback_run h tabId onPlaybackError documents st =
     (case then_p (serial (map (playback_thunk h tabId onPlaybackError) documents))
             (\<lambda>_. \<lambda>(sum, tr). (Resolved sum, (sum, tr))) st of
        (r, (n, tr)) \<Rightarrow> (r, tr))"

text \<open>\<open>playbackDocuments(documents, onPlaybackError)\<close>: \<open>let sum = 0\<close>, then the run.\<close>

definition playbackDocuments ::
  "host \<Rightarrow> nat \<Rightarrow> document list \<Rightarrow> playback_callback option \<Rightarrow> (trace, int) async" where
  "playbackDocuments h tabId documents onPlaybackError tr =
     playback_run h tabId onPlaybackError documents (0, tr)"

section \<open>Comparator Factory\<close>

text \<open>
  The \<open>Map\<close> the style comparator captures: class names to ranks, in insertion
  order. \<open>map.get\<close> of a key that is not a class name of the map (among them
  \<open>undefined\<close>, the \<open>className\<close> of an entry that has none) is \<open>undefined\<close>.
\<close>

type_synonym style_map = "(string \<times> nat) list"

definition Map_get :: "style_map \<Rightarrow> string option \<Rightarrow> jsval" where
  "Map_get m key =
     (case key of
        None \<Rightarrow> JUndefined
      | Some c \<Rightarrow> (case map_of m c of None \<Rightarrow> JUndefined | Some i \<Rightarrow> JNum (real i)))"

text \<open>\<open>definitions.forEach(({className}, index) => map.set(className, index))\<close>\<close>

definition set_ranks :: "style_definition list \<Rightarrow> style_map \<Rightarrow> style_map" where
  "set_ranks definitions m =
     foldl (\<lambda>m (index, d). AList.update (def_className d) index m) m (enumerate 0 definitions)"

definition getAll :: "host \<Rightarrow> (trace, style_definition list option) async" where
  "getAll h tr = (storage_getAll h tr, tr @ [StorageGetAll])"

text \<open>\<open>rect.top\<close>: a TypeError on \<open>undefined\<close> and \<open>null\<close>, the property otherwise.\<close>

fun property_top :: "jsval \<Rightarrow> (trace, jsval) async" where
  "property_top JUndefined = Promise_reject TypeError"
| "property_top JNull = Promise_reject TypeError"
| "property_top (JObj ps) =
     Promise_resolve (case map_of ps ''top'' of None \<Rightarrow> JUndefined | Some v \<Rightarrow> v)"
| "property_top _ = Promise_resolve JUndefined"

definition location_comparator :: "host \<Rightarrow> nat \<Rightarrow> document \<Rightarrow> (trace, jsval) async" where
  "location_comparator h tabId doc =
     then_p
       (then_p (isHighlightInDOM h tabId (JStr (doc_id doc)))
          (\<lambda>isInDOM. if truthy isInDOM
                     then getHighlightBoundingClientRect h tabId (JStr (doc_id doc))
                     else Promise_reject (Error [])))
       property_top"

definition style_comparator :: "host \<Rightarrow> document \<Rightarrow> (style_map \<times> trace, jsval) async" where
  "style_comparator h doc =
     (\<lambda>(m, tr).
        if length m = 0 then
          then_p
            (then_p (in_closure (getAll h))
               (\<lambda>items. \<lambda>(m, tr).
                  case items of
                    None \<Rightarrow> (Rejected TypeError, (m, tr))
                  | Some definitions \<Rightarrow> (Resolved JUndefined, (set_ranks definitions m, tr))))
            (\<lambda>_. \<lambda>(m, tr). (Resolved (Map_get m (className doc)), (m, tr)))
            (m, tr)
        else Promise_resolve (Map_get m (className doc)) (m, tr))"

text \<open>
  The same invocation in its two phases. The synchronous part, which ends when
  the promise is returned: either the map is still empty and the fetch has been
  issued (the invocation holds the answer the store will give), or the key is
  at hand. The rest runs when the fetch settles. An invocation that is awaited
  runs both phases before anything else happens; two invocations made in the
  same turn both run their first phase before either runs its second.
\<close>

datatype style_invocation = Fetching "style_definition list option promise" | Key jsval

definition style_comparator_call ::
  "host \<Rightarrow> document \<Rightarrow> style_map \<times> trace \<Rightarrow> style_invocation \<times> (style_map \<times> trace)" where
  "style_comparator_call h doc =
     (\<lambda>(m, tr).
        if length m = 0 then (Fetching (storage_getAll h tr), (m, tr @ [StorageGetAll]))
        else (Key (Map_get m (className doc)), (m, tr)))"

definition style_comparator_settle ::
  "style_invocation \<Rightarrow> document \<Rightarrow> (style_map \<times> trace, jsval) async" where
  "style_comparator_settle invocation doc =
     (case invocation of
        Fetching answer \<Rightarrow>
          then_p
            (then_p (\<lambda>st. (answer, st))
               (\<lambda>items. \<lambda>(m, tr).
                  case items of
                    None \<Rightarrow> (Rejected TypeError, (m, tr))
                  | Some definitions \<Rightarrow> (Resolved JUndefined, (set_ranks definitions m, tr))))
            (\<lambda>_. \<lambda>(m, tr). (Resolved (Map_get m (className doc)), (m, tr)))
      | Key k \<Rightarrow> Promise_resolve k)"

text \<open>
  \<open>getComparisonFunction(sortby)\<close> returns a closure: the \<open>Map\<close> it captures
  (created empty in the \<open>style\<close> case; the other cases capture nothing and never
  touch it) and its code. An unknown mode throws.
\<close>

definition getComparisonFunction ::
  "host \<Rightarrow> nat \<Rightarrow> string \<Rightarrow>
     js_error + (style_map \<times> (document \<Rightarrow> (style_map \<times> trace, jsval) async))" where
  "getComparisonFunction h tabId sortby =
     (if sortby = ''time'' then
        Inr ([], \<lambda>doc. Promise_resolve (JNum (date doc)))
      else if sortby = ''location'' then
        Inr ([], \<lambda>doc. in_closure (location_comparator h tabId doc))
      else if sortby = ''style'' then
        Inr ([], \<lambda>doc. style_comparator h doc)
      else Inl (Thrown ''Unknown type''))"

text \<open>
  Invoking a comparator on one entry after another, each invocation awaited
  before the next is made; the keys are collected whatever they are (also when
  an invocation rejects or stalls, the next one is still made).
\<close>

fun invoke_each ::
  "(document \<Rightarrow> ('s, jsval) async) \<Rightarrow> document list \<Rightarrow> 's \<Rightarrow> jsval promise list \<times> 's" where
  "invoke_each f [] s = ([], s)"
| "invoke_each f (d # ds) s =
     (case f d s of (r, s') \<Rightarrow> (case invoke_each f ds s' of (rs, s'') \<Rightarrow> (r # rs, s'')))"

section \<open>Overview Formatter\<close>

definition OVERVIEW_FORMAT_MARKDOWN :: string where
  "OVERVIEW_FORMAT_MARKDOWN = ''markdown''"

definition OVERVIEW_FORMAT_MARKDOWN_NO_FOOTER :: string where
  "OVERVIEW_FORMAT_MARKDOWN_NO_FOOTER = ''markdown-no-footer''"

text \<open>
  The \<open>DB\<close> class is not among the sources: its three operations are taken as
  parameters. \<open>getMatchingDocuments\<close> and \<open>sortDocuments\<close> answer, like the host,
  as a function of the call and of what happened before; the comparator is of
  any type \<open>'c\<close>.
\<close>

record 'c db =
  formatMatch :: "string \<Rightarrow> string"
  getMatchingDocuments :: "trace \<Rightarrow> string \<Rightarrow> bool \<Rightarrow> document list promise"
  sortDocuments :: "trace \<Rightarrow> document list \<Rightarrow> 'c \<Rightarrow> document list promise"

definition get :: "host \<Rightarrow> nat \<Rightarrow> (trace, tab option) async" where
  "get h tabId tr =
     (case tabs_get h tr tabId of
        Invoked lastError t \<Rightarrow> Resolved t
      | NeverInvoked \<Rightarrow> Pending,
      tr @ [TabsGet tabId])"

text \<open>A value inside a template literal: \<open>undefined\<close> prints as "undefined".\<close>

definition template :: "string option \<Rightarrow> string" where
  "template v = (case v of None \<Rightarrow> ''undefined'' | Some s \<Rightarrow> s)"

definition newline :: string where
  "newline = [CHR 0x0A]"

type_synonym titles = "(string \<times> string) list"

definition titles_get :: "titles \<Rightarrow> string option \<Rightarrow> string option" where
  "titles_get ts key = (case key of None \<Rightarrow> None | Some c \<Rightarrow> map_of ts c)"

text \<open>
  The first three stages of \<open>getFormattedOverviewText\<close> and the sort: the tab,
  the titles of the style definitions, the entries of the tab's URL, sorted when
  a comparator is given.
\<close>

definition overview_documents ::
  "host \<Rightarrow> 'c db \<Rightarrow> nat \<Rightarrow> 'c option \<Rightarrow> (trace, tab \<times> titles \<times> document list) async" where
  "overview_documents h db tabId comparator =
     then_p (get h tabId) (\<lambda>t.
       then_p (getAll h) (\<lambda>definitions.
         case definitions of
           None \<Rightarrow> Promise_reject TypeError
         | Some ds \<Rightarrow>
             (let titles = foldl (\<lambda>ts d. AList.update (def_className d) (def_title d) ts) [] ds in
              case t of
                None \<Rightarrow> Promise_reject TypeError
              | Some tab \<Rightarrow>
                  then_p
                    (\<lambda>tr. (getMatchingDocuments db tr (formatMatch db (url tab)) True,
                           tr @ [DBGetMatchingDocuments (formatMatch db (url tab)) True]))
                    (\<lambda>docs.
                       then_p
                         (case comparator of
                            Some c \<Rightarrow> (\<lambda>tr. (sortDocuments db tr docs c, tr @ [DBSortDocuments docs]))
                          | None \<Rightarrow> Promise_resolve docs)
                         (\<lambda>docs. Promise_resolve (tab, titles, docs))))))"

text \<open>The body of the \<open>for\<close> loop over the entries: the markdown so far and \<open>currentClassName\<close>.\<close>

definition markdown_entry ::
  "titles \<Rightarrow> string \<times> string option \<Rightarrow> document \<Rightarrow> string \<times> string option" where
  "markdown_entry ts = (\<lambda>(markdown, currentClassName) doc.
     (let (markdown, currentClassName) =
        (if className doc \<noteq> currentClassName
         then (markdown @ newline @ newline @ ''## '' @ template (titles_get ts (className doc)),
               className doc)
         else (markdown @ newline, currentClassName))
      in (markdown @ newline @ ''* '' @ template (text_of doc), currentClassName)))"

definition markdown_footer :: "host \<Rightarrow> string" where
  "markdown_footer h =
     newline @ newline @ ''---'' @ newline @
     i18n_getMessage h ''overview_footer''
       [i18n_getMessage h ''extension_name'' [],
        i18n_getMessage h ''extension_webstore_url'' [],
        i18n_getMessage h ''copyright_year'' [],
        i18n_getMessage h ''extension_author'' [],
        i18n_getMessage h ''extension_author_url'' []]"

text \<open>The last stage: the entries are reversed under \<open>invert\<close>, then rendered.\<close>

definition overview_render ::
  "host \<Rightarrow> string \<Rightarrow> bool \<Rightarrow> tab \<times> titles \<times> document list \<Rightarrow> (trace, string) async" where
  "overview_render h format invert = (\<lambda>(tab, ts, docs).
     (let docs = (if invert then rev docs else docs) in
      if format = OVERVIEW_FORMAT_MARKDOWN \<or> format = OVERVIEW_FORMAT_MARKDOWN_NO_FOOTER then
        (let markdown = ''# ['' @ title tab @ '']('' @ url tab @ '')'';
             markdown = fst (foldl (markdown_entry ts) (markdown, None) docs);
             markdown = (if format \<noteq> OVERVIEW_FORMAT_MARKDOWN_NO_FOOTER
                         then markdown @ markdown_footer h else markdown)
         in Promise_resolve markdown)
      else Promise_reject (Error ''unknown format'')))"

definition getFormattedOverviewText ::
  "host \<Rightarrow> 'c db \<Rightarrow> nat \<Rightarrow> string \<Rightarrow> 'c option \<Rightarrow> bool \<Rightarrow> (trace, string) async" where
  "getFormattedOverviewText h db tabId format comparator invert =
     then_p (overview_documents h db tabId comparator) (overview_render h format invert)"

section \<open>The vocabulary of the properties\<close>

text \<open>The host call that injects one file with the given details.\<close>

definition injection :: "nat \<Rightarrow> jsobject \<Rightarrow> string \<Rightarrow> event" where
  "injection tabId details f = TabsExecuteScript tabId (Object_assign [(''file'', JStr f)] details)"

text \<open>
  The spec's two ways a delivery fails: the host reports a transport error, or
  the content script returns an undefined response. A callback that is never
  invoked is neither: the attempt stalls.
\<close>

definition delivery_fails :: "jsval callback \<Rightarrow> bool" where
  "delivery_fails reply =
     (case reply of
        Invoked (Some msg) response \<Rightarrow> True
      | Invoked None response \<Rightarrow> response = JUndefined
      | NeverInvoked \<Rightarrow> False)"

text \<open>Delivery attempts and script injections among the events of a trace.\<close>

fun is_delivery :: "event \<Rightarrow> bool" where
  "is_delivery (TabsSendMessage _ _) = True"
| "is_delivery _ = False"

fun is_injection :: "event \<Rightarrow> bool" where
  "is_injection (TabsExecuteScript _ _) = True"
| "is_injection _ = False"

text \<open>The events that are calls into the host, as opposed to the log line and the callback.\<close>

fun is_host_call :: "event \<Rightarrow> bool" where
  "is_host_call (ConsoleError _) = False"
| "is_host_call (OnPlaybackError _) = False"
| "is_host_call _ = True"

text \<open>
  The callback, invoked with an entry after the given history, returns
  normally; that holds of an absent callback, which is not invoked. The events
  an invocation adds.
\<close>

definition callback_returns :: "playback_callback option \<Rightarrow> trace \<Rightarrow> document \<Rightarrow> bool" where
  "callback_returns cb tr doc = (case cb of None \<Rightarrow> True | Some callback \<Rightarrow> callback tr doc = None)"

definition callback_events :: "playback_callback option \<Rightarrow> document \<Rightarrow> event list" where
  "callback_events cb doc = (case cb of None \<Rightarrow> [] | Some callback \<Rightarrow> [OnPlaybackError doc])"

text \<open>
  Every create or delete operation that a playback run makes settles without
  rejecting: the main promise of each entry the run reaches, taken in the state
  the run has reached, resolves. (A run that a throwing callback has stopped
  makes no further operation.)
\<close>

fun operations_resolve ::
  "host \<Rightarrow> nat \<Rightarrow> playback_callback option \<Rightarrow> document list \<Rightarrow> int \<times> trace \<Rightarrow> bool" where
  "operations_resolve h tabId cb [] st = True"
| "operations_resolve h tabId cb (doc # docs) st =
     (case playback_main_promise h tabId doc st of
        (Resolved ok, st') \<Rightarrow>
          (case playback_thunk h tabId cb doc st of
             (Resolved v, st'') \<Rightarrow> operations_resolve h tabId cb docs st''
           | (Rejected e, st'') \<Rightarrow> True
           | (Pending, st'') \<Rightarrow> True)
      | (Rejected e, st') \<Rightarrow> False
      | (Pending, st') \<Rightarrow> False)"

text \<open>
  Every invocation of the callback that a playback run makes returns normally:
  for each entry the run reaches whose operation resolves to a falsy value, the
  callback returns in the state the operation has left.
\<close>

fun callbacks_return ::
  "host \<Rightarrow> nat \<Rightarrow> playback_callback option \<Rightarrow> document list \<Rightarrow> int \<times> trace \<Rightarrow> bool" where
  "callbacks_return h tabId cb [] st = True"
| "callbacks_return h tabId cb (doc # docs) st =
     (case playback_main_promise h tabId doc st of
        (Resolved ok, (n, tr)) \<Rightarrow>
          (\<not> truthy ok \<longrightarrow> callback_returns cb tr doc) \<and>
          callbacks_return h tabId cb docs (snd (playback_thunk h tabId cb doc st))
      | (Rejected e, st') \<Rightarrow> True
      | (Pending, st') \<Rightarrow> True)"

text \<open>The number of create entries minus the number of delete entries.\<close>

definition net_count :: "document list \<Rightarrow> int" where
  "net_count documents =
     int (length (filter (\<lambda>d. verb d = DB_DOCUMENT_VERB_CREATE) documents))
     - int (length (filter (\<lambda>d. verb d = DB_DOCUMENT_VERB_DELETE) documents))"

text \<open>The requests \<open>createHighlight\<close> and \<open>deleteHighlight\<close> send for an entry.\<close>

definition create_message :: "document \<Rightarrow> jsobject" where
  "create_message doc =
     [(''id'', JStr ''create_highlight''),
      (''range'', opt_val (range_of doc)),
      (''highlightId'', JStr (doc_id doc)),
      (''className'', opt_str (className doc))]"

definition delete_message :: "document \<Rightarrow> jsobject" where
  "delete_message doc =
     [(''id'', JStr ''delete_highlight''),
      (''highlightId'', opt_str (correspondingDocumentId doc))]"

text \<open>
  A comparator, made by the factory and then invoked on the entries one after
  another: the keys and the trace, or the error the factory threw.
\<close>

definition comparator_keys ::
  "js_error + (style_map \<times> (document \<Rightarrow> (style_map \<times> trace, jsval) async))
     \<Rightarrow> document list \<Rightarrow> trace \<Rightarrow> js_error + (jsval promise list \<times> trace)" where
  "comparator_keys made docs tr =
     (case made of
        Inl e \<Rightarrow> Inl e
      | Inr (m, f) \<Rightarrow> (case invoke_each f docs (m, tr) of (keys, (m', tr')) \<Rightarrow> Inr (keys, tr')))"

text \<open>
  The rank of a class name in the ordered list of style definitions: the
  position of the definition that bears it, the last one if several do.
\<close>

definition rank_of :: "style_definition list \<Rightarrow> string \<Rightarrow> nat option" where
  "rank_of definitions c =
     map_option fst (find (\<lambda>(i, d). def_className d = c) (rev (enumerate 0 definitions)))"

text \<open>The key of an entry: the rank of its class name, \<open>undefined\<close> if it has none or an unknown one.\<close>

definition rank_key :: "style_definition list \<Rightarrow> string option \<Rightarrow> jsval" where
  "rank_key definitions key =
     (case key of
        None \<Rightarrow> JUndefined
      | Some c \<Rightarrow> (case rank_of definitions c of None \<Rightarrow> JUndefined | Some i \<Rightarrow> JNum (real i)))"

text \<open>The requests \<open>isHighlightInDOM\<close> and \<open>getHighlightBoundingClientRect\<close> send for an entry.\<close>

definition in_dom_message :: "document \<Rightarrow> jsobject" where
  "in_dom_message doc = [(''id'', JStr ''is_highlight_in_dom''), (''highlightId'', JStr (doc_id doc))]"

definition rect_message :: "document \<Rightarrow> jsobject" where
  "rect_message doc = [(''id'', JStr ''get_bounding_client_rect''), (''highlightId'', JStr (doc_id doc))]"

text \<open>
  The rendering as the spec words it. One entry: a new subheading, with the
  display title looked up for its class name, when the class name differs from
  the previous entry's (for the first entry: from \<open>undefined\<close>), a blank
  line otherwise; then the entry's text as a list item.
\<close>

definition spec_entry :: "titles \<Rightarrow> string option \<Rightarrow> document \<Rightarrow> string" where
  "spec_entry ts previous doc =
     (if className doc \<noteq> previous
      then newline @ newline @ ''## '' @ template (titles_get ts (className doc))
      else newline)
     @ newline @ ''* '' @ template (text_of doc)"

text \<open>The document: the heading that links the title to the URL, then the entries in order.\<close>

definition spec_markdown :: "tab \<Rightarrow> titles \<Rightarrow> document list \<Rightarrow> string" where
  "spec_markdown t ts docs =
     ''# ['' @ title t @ '']('' @ url t @ '')'' @
     concat (map (\<lambda>(previous, doc). spec_entry ts previous doc)
               (zip (None # map className docs) docs))"

section \<open>An example host\<close>

text \<open>
  A page whose content script answers once the last default script has been
  injected into the tab. Tab 0 is a page the extension may not script. The
  content script knows one highlight, \<open>h1\<close>.
\<close>

definition content_script_present :: "trace \<Rightarrow> nat \<Rightarrow> bool" where
  "content_script_present tr tabId \<longleftrightarrow>
     TabsExecuteScript tabId [(''file'', JStr ''js/content_script/content_script.js'')] \<in> set tr"

definition example_response :: "jsobject \<Rightarrow> jsval" where
  "example_response m =
     (case map_of m ''id'' of
        Some (JStr i) \<Rightarrow>
          if i = ''create_highlight'' then JBool (map_of m ''range'' \<noteq> Some JUndefined)
          else if i = ''delete_highlight'' then JBool (map_of m ''highlightId'' = Some (JStr ''h1''))
          else if i = ''is_highlight_in_dom'' then JBool (map_of m ''highlightId'' = Some (JStr ''h1''))
          else if i = ''get_bounding_client_rect'' then
            (if map_of m ''highlightId'' = Some (JStr ''h1'')
             then JObj [(''top'', JNum 120), (''left'', JNum 8), (''width'', JNum 64), (''height'', JNum 18)]
             else JNull)
          else if i = ''select_highlight'' \<or> i = ''select_range'' then JNull
          else JUndefined
      | _ \<Rightarrow> JUndefined)"

definition example_definitions :: "style_definition list" where
  "example_definitions =
     [\<lparr>def_className = ''hl-red'', def_title = ''Red''\<rparr>,
      \<lparr>def_className = ''hl-yellow'', def_title = ''Yellow''\<rparr>]"

definition example_host :: host where
  "example_host =
     \<lparr>tabs_sendMessage = (\<lambda>tr tabId m.
        if tabId \<noteq> 0 \<and> content_script_present tr tabId
        then Invoked None (example_response m)
        else Invoked (Some ''Could not establish connection. Receiving end does not exist.'') JUndefined),
      tabs_executeScript = (\<lambda>tr tabId arg.
        if tabId = 0 then Invoked (Some ''Cannot access a chrome:// URL'') JUndefined
        else Invoked None (JArr [JNull])),
      tabs_get = (\<lambda>tr tabId.
        Invoked None (Some \<lparr>tab_id = tabId, url = ''https://example.org/a'', title = ''Example''\<rparr>)),
      storage_getAll = (\<lambda>tr. Resolved (Some example_definitions)),
      i18n_getMessage = (\<lambda>name substitutions. name)\<rparr>"

text \<open>The trace of a tab into which the default scripts have been injected.\<close>

definition injected :: "nat \<Rightarrow> trace" where
  "injected tabId = map (injection tabId []) DEFAULT_SCRIPTS"

text \<open>A message the content script has no handler for.\<close>

definition ping :: jsobject where
  "ping = [(''id'', JStr ''ping'')]"

text \<open>
  Example entries: a create the content script carries out, a create whose
  range is missing (the content script answers \<open>false\<close>), the delete of the
  first, and an entry with a verb that is neither.
\<close>

definition example_create :: document where
  "example_create =
     \<lparr>verb = ''create'', doc_id = ''h1'', match = ''example.org/a'', date = 1,
      range_of = Some (JObj [(''startContainerPath'', JStr ''/html/body/p[1]/text()''), (''startOffset'', JNum 0),
                             (''endContainerPath'', JStr ''/html/body/p[1]/text()''), (''endOffset'', JNum 5)]),
      className = Some ''hl-red'', text_of = Some ''A'', doc_title = Some ''Example'',
      correspondingDocumentId = None\<rparr>"

definition example_create_no_range :: document where
  "example_create_no_range =
     \<lparr>verb = ''create'', doc_id = ''h2'', match = ''example.org/a'', date = 2,
      range_of = None,
      className = Some ''hl-red'', text_of = Some ''B'', doc_title = Some ''Example'',
      correspondingDocumentId = None\<rparr>"

definition example_delete :: document where
  "example_delete =
     \<lparr>verb = ''delete'', doc_id = ''d1'', match = ''example.org/a'', date = 3,
      range_of = None, className = None, text_of = None, doc_title = None,
      correspondingDocumentId = Some ''h1''\<rparr>"

definition example_update :: document where
  "example_update =
     \<lparr>verb = ''update'', doc_id = ''u1'', match = ''example.org/a'', date = 4,
      range_of = None, className = Some ''hl-yellow'', text_of = None, doc_title = None,
      correspondingDocumentId = Some ''h1''\<rparr>"

text \<open>Two callbacks: one that returns, one that throws.\<close>

definition returning_callback :: playback_callback where
  "returning_callback = (\<lambda>tr doc. None)"

definition throwing_callback :: playback_callback where
  "throwing_callback = (\<lambda>tr doc. Some (Error ''callback failed''))"

text \<open>The example host with a style store that holds no definition.\<close>

definition empty_store_host :: host where
  "empty_store_host = example_host\<lparr>storage_getAll := (\<lambda>tr. Resolved (Some []))\<rparr>"

text \<open>
  A third highlight, of another style, and a log store that holds the three
  highlights and sorts by leaving the order as it is.
\<close>

definition example_yellow :: document where
  "example_yellow =
     \<lparr>verb = ''create'', doc_id = ''h3'', match = ''example.org/a'', date = 5,
      range_of = Some (JObj []),
      className = Some ''hl-yellow'', text_of = Some ''C'', doc_title = Some ''Example'',
      correspondingDocumentId = None\<rparr>"

definition example_db :: "unit db" where
  "example_db =
     \<lparr>formatMatch = drop 8,
      getMatchingDocuments = (\<lambda>tr key excludeDeletedDocs.
        Resolved [example_create, example_create_no_range, example_yellow]),
      sortDocuments = (\<lambda>tr docs comparator. Resolved docs)\<rparr>"

text \<open>What the stages before the rendering produce on the example host.\<close>

definition example_tab :: tab where
  "example_tab = \<lparr>tab_id = 2, url = ''https://example.org/a'', title = ''Example''\<rparr>"

definition example_titles :: titles where
  "example_titles = [(''hl-red'', ''Red''), (''hl-yellow'', ''Yellow'')]"

definition example_overview_trace :: trace where
  "example_overview_trace =
     [TabsGet 2, StorageGetAll, DBGetMatchingDocuments ''example.org/a'' True,
      DBSortDocuments [example_create, example_create_no_range, example_yellow]]"

section \<open>The Tab Messenger retries at most once\<close>

lemma executeScript_File_trace:
  "snd (executeScript h tabId (File f) details tr) = tr @ [injection tabId details f]"
  by (simp add: injection_def Let_def)

lemma serial_inject:
  "\<exists>k\<le>length fs.
     snd (serial (map (\<lambda>f. executeScript h tabId (File f) details) fs) tr)
       = tr @ map (injection tabId details) (take k fs) \<and>
     ((\<exists>vs. fst (serial (map (\<lambda>f. executeScript h tabId (File f) details) fs) tr) = Resolved vs)
        \<longrightarrow> k = length fs) \<and>
     (fs \<noteq> [] \<longrightarrow> 0 < k)"
proof (induction fs arbitrary: tr)
  case Nil
  show ?case by simp
next
  case (Cons f fs)
  let ?tr1 = "tr @ [injection tabId details f]"
  obtain r where r: "executeScript h tabId (File f) details tr = (r, ?tr1)"
    using executeScript_File_trace[of h tabId f details tr] by (metis prod.collapse)
  from Cons.IH[of ?tr1] obtain k where k: "k \<le> length fs"
    "snd (serial (map (\<lambda>f. executeScript h tabId (File f) details) fs) ?tr1)
       = ?tr1 @ map (injection tabId details) (take k fs)"
    "(\<exists>vs. fst (serial (map (\<lambda>f. executeScript h tabId (File f) details) fs) ?tr1) = Resolved vs)
        \<longrightarrow> k = length fs"
    by blast
  show ?case
  proof (cases r)
    case (Resolved v)
    obtain r2 tr2 where s2: "serial (map (\<lambda>f. executeScript h tabId (File f) details) fs) ?tr1 = (r2, tr2)"
      by (metis prod.collapse)
    with k have tr2: "tr2 = ?tr1 @ map (injection tabId details) (take k fs)"
      and full: "(\<exists>vs. r2 = Resolved vs) \<longrightarrow> k = length fs" by auto
    have "snd (serial (map (\<lambda>f. executeScript h tabId (File f) details) (f # fs)) tr) = tr2"
      using r Resolved s2 by (simp del: executeScript.simps split: promise.splits)
    moreover have "(\<exists>vs. fst (serial (map (\<lambda>f. executeScript h tabId (File f) details) (f # fs)) tr) = Resolved vs)
        \<longrightarrow> (\<exists>vs. r2 = Resolved vs)"
      using r Resolved s2 by (auto simp del: executeScript.simps split: promise.splits)
    ultimately show ?thesis
      using tr2 full k(1) by (intro exI[of _ "Suc k"]) auto
  next
    case (Rejected e)
    then show ?thesis using r
      by (intro exI[of _ "Suc 0"]) (simp del: executeScript.simps)
  next
    case Pending
    then show ?thesis using r
      by (intro exI[of _ "Suc 0"]) (simp del: executeScript.simps)
  qed
qed

lemma sendMessageInternal_trace:
  "snd (sendMessageInternal h tabId message tr) = tr @ [TabsSendMessage tabId message]"
  by (simp add: sendMessageInternal_def)

lemma sendMessageInternal_fails:
  "(\<exists>e. fst (sendMessageInternal h tabId message tr) = Rejected e)
     \<longleftrightarrow> delivery_fails (tabs_sendMessage h tr tabId message)"
  by (auto simp: sendMessageInternal_def delivery_fails_def split: callback.splits option.splits)

lemma executeDefaultScript_trace:
  "\<exists>k\<le>length DEFAULT_SCRIPTS. 0 < k \<and>
     snd (executeDefaultScript h tabId details tr)
       = tr @ map (injection tabId details) (take k DEFAULT_SCRIPTS) \<and>
     ((\<exists>v. fst (executeDefaultScript h tabId details tr) = Resolved v)
        \<longrightarrow> k = length DEFAULT_SCRIPTS)"
proof -
  let ?run = "serial (map (\<lambda>f. executeScript h tabId (File f) details) DEFAULT_SCRIPTS) tr"
  have ne: "DEFAULT_SCRIPTS \<noteq> []" by (simp add: DEFAULT_SCRIPTS_def)
  from serial_inject[of DEFAULT_SCRIPTS h tabId details tr] ne
  obtain k where k: "k \<le> length DEFAULT_SCRIPTS" "0 < k"
    "snd ?run = tr @ map (injection tabId details) (take k DEFAULT_SCRIPTS)"
    "(\<exists>vs. fst ?run = Resolved vs) \<longrightarrow> k = length DEFAULT_SCRIPTS"
    by blast
  have eq: "executeDefaultScript h tabId details tr
      = then_p (serial (map (\<lambda>f. executeScript h tabId (File f) details) DEFAULT_SCRIPTS))
          (\<lambda>results. Promise_resolve (JArr results)) tr"
    by (simp add: executeDefaultScript_def comp_def del: executeScript.simps(2))
  obtain r tr' where run: "?run = (r, tr')" by (metis prod.collapse)
  have "snd (executeDefaultScript h tabId details tr) = snd ?run"
    unfolding eq then_p_def run by (cases r) (simp_all add: Promise_resolve_def)
  moreover have "(\<exists>v. fst (executeDefaultScript h tabId details tr) = Resolved v)
      \<longrightarrow> (\<exists>vs. fst ?run = Resolved vs)"
    unfolding eq then_p_def run by (cases r) (simp_all add: Promise_resolve_def)
  ultimately show ?thesis using k by (intro exI[of _ k]) auto
qed

lemma sendMessage_retry:
  "sendMessage h tabId message True tr =
     (case executeDefaultScript h tabId [] tr of
        (Resolved v, tr') \<Rightarrow> sendMessageInternal h tabId message tr'
      | (Rejected e, tr') \<Rightarrow> (Rejected e, tr')
      | (Pending, tr') \<Rightarrow> (Pending, tr'))"
  by (subst sendMessage.simps)
     (auto simp: catch_p_def then_p_def Promise_reject_def split: prod.splits promise.splits)

lemma sendMessage_first:
  "sendMessage h tabId message False tr =
     (case sendMessageInternal h tabId message tr of
        (Rejected e, tr') \<Rightarrow> sendMessage h tabId message True tr'
      | (r, tr') \<Rightarrow> (r, tr'))"
  by (subst sendMessage.simps)
     (auto simp: catch_p_def then_p_def Promise_resolve_def split: prod.splits promise.splits)

text \<open>
  Claim C1. For every host, tab, message and history, \<open>sendMessage\<close> makes a
  first delivery attempt; it injects default scripts exactly when that attempt
  fails (each script at most once, in the order of \<open>DEFAULT_SCRIPTS\<close>, stopping
  at the first one that fails or stalls); it makes a second delivery attempt
  exactly when the first failed and the whole injection resolved, and that
  attempt's outcome, its error included, is the result. Nothing else happens:
  at most two delivery attempts and at most one injection of each script.
\<close>

theorem sendMessage_at_most_one_retry:
  "\<exists>k retry.
     k \<le> length DEFAULT_SCRIPTS \<and>
     snd (sendMessage h tabId message False tr)
       = tr @ [TabsSendMessage tabId message]
            @ map (injection tabId []) (take k DEFAULT_SCRIPTS)
            @ (if retry then [TabsSendMessage tabId message] else []) \<and>
     (0 < k \<longleftrightarrow> delivery_fails (tabs_sendMessage h tr tabId message)) \<and>
     (retry \<longleftrightarrow> delivery_fails (tabs_sendMessage h tr tabId message) \<and>
        (\<exists>v. fst (executeDefaultScript h tabId [] (tr @ [TabsSendMessage tabId message])) = Resolved v)) \<and>
     (retry \<longrightarrow> k = length DEFAULT_SCRIPTS) \<and>
     (\<not> delivery_fails (tabs_sendMessage h tr tabId message) \<longrightarrow>
        fst (sendMessage h tabId message False tr) = fst (sendMessageInternal h tabId message tr)) \<and>
     (retry \<longrightarrow>
        fst (sendMessage h tabId message False tr)
          = fst (sendMessageInternal h tabId message
                   (tr @ [TabsSendMessage tabId message] @ map (injection tabId []) DEFAULT_SCRIPTS))) \<and>
     (delivery_fails (tabs_sendMessage h tr tabId message) \<and> \<not> retry \<longrightarrow>
        fst (sendMessage h tabId message False tr)
          = fst (executeDefaultScript h tabId [] (tr @ [TabsSendMessage tabId message]))) \<and>
     length (filter is_delivery (drop (length tr) (snd (sendMessage h tabId message False tr)))) \<le> 2 \<and>
     length (filter is_injection (drop (length tr) (snd (sendMessage h tabId message False tr))))
       \<le> length DEFAULT_SCRIPTS"
proof -
  let ?send = "TabsSendMessage tabId message"
  let ?tr1 = "tr @ [?send]"
  let ?fails = "delivery_fails (tabs_sendMessage h tr tabId message)"
  obtain r1 where first: "sendMessageInternal h tabId message tr = (r1, ?tr1)"
    using sendMessageInternal_trace[of h tabId message tr] by (metis prod.collapse)
  have fails: "?fails \<longleftrightarrow> (\<exists>e. r1 = Rejected e)"
    using sendMessageInternal_fails[of h tabId message tr] first by simp
  have count: "filter (is_delivery \<circ> injection tabId []) xs = []"
    "filter (is_injection \<circ> injection tabId []) xs = xs" for xs
    by (induction xs) (simp_all add: injection_def)
  show ?thesis
  proof (cases ?fails)
    case False
    then have res: "sendMessage h tabId message False tr = (r1, ?tr1)"
      using fails first by (cases r1) (simp_all add: sendMessage_first)
    have S: "snd (sendMessage h tabId message False tr) = ?tr1" using res by simp
    have F: "fst (sendMessage h tabId message False tr)
        = fst (sendMessageInternal h tabId message tr)" using res first by simp
    have C: "length (filter is_delivery (drop (length tr) (snd (sendMessage h tabId message False tr)))) \<le> 2"
      "length (filter is_injection (drop (length tr) (snd (sendMessage h tabId message False tr))))
         \<le> length DEFAULT_SCRIPTS"
      unfolding S by simp_all
    show ?thesis
      apply (rule exI[of _ 0], rule exI[of _ False])
      using False S F C by simp
  next
    case True
    then obtain e where e: "r1 = Rejected e" using fails by blast
    have step: "sendMessage h tabId message False tr = sendMessage h tabId message True ?tr1"
      using first e by (simp add: sendMessage_first)
    from executeDefaultScript_trace[of h tabId "[]" ?tr1]
    obtain k where k: "k \<le> length DEFAULT_SCRIPTS" "0 < k"
      "snd (executeDefaultScript h tabId [] ?tr1) = ?tr1 @ map (injection tabId []) (take k DEFAULT_SCRIPTS)"
      "(\<exists>v. fst (executeDefaultScript h tabId [] ?tr1) = Resolved v) \<longrightarrow> k = length DEFAULT_SCRIPTS"
      by blast
    obtain r2 tr2 where inj: "executeDefaultScript h tabId [] ?tr1 = (r2, tr2)"
      by (metis prod.collapse)
    with k have tr2: "tr2 = ?tr1 @ map (injection tabId []) (take k DEFAULT_SCRIPTS)" by simp
    have r2: "fst (executeDefaultScript h tabId [] ?tr1) = r2" using inj by simp
    show ?thesis
    proof (cases "\<exists>v. r2 = Resolved v")
      case resolved: True
      then obtain v where v: "r2 = Resolved v" by blast
      with k r2 have kfull: "k = length DEFAULT_SCRIPTS" by simp
      have res: "sendMessage h tabId message False tr = sendMessageInternal h tabId message tr2"
        using step inj v by (simp add: sendMessage_retry)
      have tr2': "tr2 = ?tr1 @ map (injection tabId []) DEFAULT_SCRIPTS"
        using tr2 kfull by simp
      have S: "snd (sendMessage h tabId message False tr)
          = ?tr1 @ map (injection tabId []) DEFAULT_SCRIPTS @ [?send]"
        unfolding res tr2' sendMessageInternal_trace by simp
      have F: "fst (sendMessage h tabId message False tr)
          = fst (sendMessageInternal h tabId message (?tr1 @ map (injection tabId []) DEFAULT_SCRIPTS))"
        unfolding res tr2' by simp
      have R: "\<exists>v. fst (executeDefaultScript h tabId [] ?tr1) = Resolved v"
        using r2 v by simp
      have C: "length (filter is_delivery (drop (length tr) (snd (sendMessage h tabId message False tr)))) \<le> 2"
        "length (filter is_injection (drop (length tr) (snd (sendMessage h tabId message False tr))))
           \<le> length DEFAULT_SCRIPTS"
        unfolding S by (simp_all add: count)
      have ne: "0 < length DEFAULT_SCRIPTS" by (simp add: DEFAULT_SCRIPTS_def)
      show ?thesis
        apply (rule exI[of _ "length DEFAULT_SCRIPTS"], rule exI[of _ True])
        using True S F R C ne by simp
    next
      case unresolved: False
      then have res: "sendMessage h tabId message False tr = (r2, tr2)"
        using step inj by (cases r2) (simp_all add: sendMessage_retry)
      have S: "snd (sendMessage h tabId message False tr)
          = ?tr1 @ map (injection tabId []) (take k DEFAULT_SCRIPTS)"
        unfolding res tr2 by simp
      have F: "fst (sendMessage h tabId message False tr)
          = fst (executeDefaultScript h tabId [] ?tr1)"
        unfolding res r2 by simp
      have R: "\<not> (\<exists>v. fst (executeDefaultScript h tabId [] ?tr1) = Resolved v)"
        using r2 unresolved by simp
      have C: "length (filter is_delivery (drop (length tr) (snd (sendMessage h tabId message False tr)))) \<le> 2"
        "length (filter is_injection (drop (length tr) (snd (sendMessage h tabId message False tr))))
           \<le> length DEFAULT_SCRIPTS"
        unfolding S using k(1) by (simp_all add: count)
      show ?thesis
        apply (rule exI[of _ k], rule exI[of _ False])
        using True S F R C k(1,2) by simp
    qed
  qed
qed

subsection \<open>The example host, evaluated\<close>

lemma injection_simp:
  "injection tabId [] f = TabsExecuteScript tabId [(''file'', JStr f)]"
  by (simp add: injection_def Object_assign_def)

lemma example_inject:
  "tabId \<noteq> 0 \<Longrightarrow>
   executeDefaultScript example_host tabId [] tr = (Resolved (JArr (replicate 7 (JArr [JNull]))), tr @ injected tabId)"
  by (simp add: executeDefaultScript_def DEFAULT_SCRIPTS_def injected_def injection_simp
      example_host_def then_p_def Promise_resolve_def Object_assign_def numeral_eq_Suc)

lemma example_inject_refused:
  "executeDefaultScript example_host 0 [] tr
     = (Rejected (Error ''Cannot access a chrome:// URL''),
        tr @ [injection 0 [] ''js/main/chrome_storage.js''])"
  by (simp add: executeDefaultScript_def DEFAULT_SCRIPTS_def injection_simp
      example_host_def then_p_def Promise_resolve_def Object_assign_def)

lemma present_injected: "content_script_present (tr @ injected tabId @ tr') tabId"
  by (simp add: content_script_present_def injected_def DEFAULT_SCRIPTS_def injection_simp)

lemma example_deliver:
  "tabId \<noteq> 0 \<Longrightarrow> content_script_present tr tabId \<Longrightarrow>
   sendMessageInternal example_host tabId m tr =
     (if example_response m \<noteq> JUndefined then Resolved (example_response m)
      else Rejected (Error ''Undefined response''),
      tr @ [TabsSendMessage tabId m])"
  by (simp add: sendMessageInternal_def example_host_def)

lemma example_no_receiver:
  "tabId = 0 \<or> \<not> content_script_present tr tabId \<Longrightarrow>
   sendMessageInternal example_host tabId m tr =
     (Rejected (Error ''Could not establish connection. Receiving end does not exist.''),
      tr @ [TabsSendMessage tabId m])"
  by (auto simp add: sendMessageInternal_def example_host_def)

text \<open>
  On the example host: a message without a handler, sent to a tab without the
  content script, is delivered twice around one injection and the retry's
  error is the result; a message sent to a tab that has the content script is
  delivered once; on a tab that refuses the first script, the injection's error
  is the result and the message is not delivered again.
\<close>

theorem sendMessage_at_most_one_retry_witness:
  "delivery_fails (tabs_sendMessage example_host [] 1 ping) \<and>
   sendMessage example_host 1 ping False []
     = (Rejected (Error ''Undefined response''),
        [TabsSendMessage 1 ping] @ injected 1 @ [TabsSendMessage 1 ping]) \<and>
   \<not> delivery_fails (tabs_sendMessage example_host (injected 1) 1 [(''id'', JStr ''select_range'')]) \<and>
   sendMessage example_host 1 [(''id'', JStr ''select_range'')] False (injected 1)
     = (Resolved JNull, injected 1 @ [TabsSendMessage 1 [(''id'', JStr ''select_range'')]]) \<and>
   delivery_fails (tabs_sendMessage example_host [] 0 ping) \<and>
   sendMessage example_host 0 ping False []
     = (Rejected (Error ''Cannot access a chrome:// URL''),
        [TabsSendMessage 0 ping, injection 0 [] ''js/main/chrome_storage.js''])"
proof -
  let ?sel = "[(''id'', JStr ''select_range'')]"
  have present: "content_script_present ([TabsSendMessage 1 ping] @ injected 1 @ []) 1"
    "content_script_present ([] @ injected 1 @ []) 1"
    by (rule present_injected)+
  have absent: "\<not> content_script_present [] 1"
    by (simp add: content_script_present_def)
  have f1: "delivery_fails (tabs_sendMessage example_host [] 1 ping)"
    by (simp add: delivery_fails_def example_host_def content_script_present_def)
  have i1: "executeDefaultScript example_host 1 [] ([] @ [TabsSendMessage 1 ping])
      = (Resolved (JArr (replicate 7 (JArr [JNull]))), [TabsSendMessage 1 ping] @ injected 1)"
    by (simp add: example_inject)
  have r1: "sendMessageInternal example_host 1 ping ([TabsSendMessage 1 ping] @ injected 1)
      = (Rejected (Error ''Undefined response''),
         [TabsSendMessage 1 ping] @ injected 1 @ [TabsSendMessage 1 ping])"
    using present(1) by (simp add: example_deliver example_response_def ping_def)
  from sendMessage_at_most_one_retry[of example_host 1 ping "[]"]
  obtain k retry where
    tr: "snd (sendMessage example_host 1 ping False [])
       = [] @ [TabsSendMessage 1 ping] @ map (injection 1 []) (take k DEFAULT_SCRIPTS)
            @ (if retry then [TabsSendMessage 1 ping] else [])"
    and retry: "retry \<longleftrightarrow> delivery_fails (tabs_sendMessage example_host [] 1 ping) \<and>
        (\<exists>v. fst (executeDefaultScript example_host 1 [] ([] @ [TabsSendMessage 1 ping])) = Resolved v)"
    and full: "retry \<longrightarrow> k = length DEFAULT_SCRIPTS"
    and res: "retry \<longrightarrow> fst (sendMessage example_host 1 ping False [])
          = fst (sendMessageInternal example_host 1 ping
                   ([] @ [TabsSendMessage 1 ping] @ map (injection 1 []) DEFAULT_SCRIPTS))"
    by blast
  have "retry" using retry f1 i1 by simp
  with full res tr r1
  have a: "sendMessage example_host 1 ping False []
     = (Rejected (Error ''Undefined response''),
        [TabsSendMessage 1 ping] @ injected 1 @ [TabsSendMessage 1 ping])"
    by (simp add: injected_def prod_eq_iff)
  have f2: "\<not> delivery_fails (tabs_sendMessage example_host (injected 1) 1 ?sel)"
    using present(2) by (simp add: delivery_fails_def example_host_def example_response_def)
  have b: "sendMessage example_host 1 ?sel False (injected 1)
     = (Resolved JNull, injected 1 @ [TabsSendMessage 1 ?sel])"
    using present(2)
      sendMessage_at_most_one_retry[of example_host 1 ?sel "injected 1"]
    by (simp add: sendMessage_first example_deliver example_response_def)
  have f3: "delivery_fails (tabs_sendMessage example_host [] 0 ping)"
    by (simp add: delivery_fails_def example_host_def)
  have c: "sendMessage example_host 0 ping False []
     = (Rejected (Error ''Cannot access a chrome:// URL''),
        [TabsSendMessage 0 ping, injection 0 [] ''js/main/chrome_storage.js''])"
    using sendMessage_at_most_one_retry[of example_host 0 ping "[]"]
    by (simp add: sendMessage_first sendMessage_retry example_no_receiver example_inject_refused)
  from f1 a f2 b f3 c show ?thesis by blast
qed

section \<open>Playback counts, reports and aborts\<close>

lemma sendMessage_extends:
  "\<exists>evs. snd (sendMessage h tabId message opt tr) = tr @ evs \<and> (\<forall>e\<in>set evs. is_host_call e)"
proof -
  have inj: "\<exists>evs. snd (executeDefaultScript h tabId [] t) = t @ evs \<and> (\<forall>e\<in>set evs. is_host_call e)" for t
    using executeDefaultScript_trace[of h tabId "[]" t] by (auto simp: injection_def)
  have retry: "\<exists>evs. snd (sendMessage h tabId message True t) = t @ evs \<and> (\<forall>e\<in>set evs. is_host_call e)" for t
  proof -
    obtain r t' where e: "executeDefaultScript h tabId [] t = (r, t')" by (metis prod.collapse)
    from inj[of t] e obtain evs where evs: "t' = t @ evs" "\<forall>e\<in>set evs. is_host_call e" by auto
    show ?thesis
    proof (cases r)
      case (Resolved v)
      then have "snd (sendMessage h tabId message True t) = t @ (evs @ [TabsSendMessage tabId message])"
        using e evs by (simp add: sendMessage_retry sendMessageInternal_trace)
      then show ?thesis using evs(2) by (intro exI[of _ "evs @ [TabsSendMessage tabId message]"]) simp
    qed (use e evs in \<open>auto simp: sendMessage_retry\<close>)
  qed
  show ?thesis
  proof (cases opt)
    case True
    then show ?thesis using retry by simp
  next
    case False
    obtain r t' where f: "sendMessageInternal h tabId message tr = (r, t')" by (metis prod.collapse)
    then have t': "t' = tr @ [TabsSendMessage tabId message]"
      using sendMessageInternal_trace[of h tabId message tr] by simp
    show ?thesis
    proof (cases r)
      case (Rejected e)
      from retry[of t'] obtain evs where
        "snd (sendMessage h tabId message True t') = t' @ evs" "\<forall>e\<in>set evs. is_host_call e" by blast
      then show ?thesis using False f Rejected t'
        by (intro exI[of _ "TabsSendMessage tabId message # evs"]) (simp add: sendMessage_first)
    qed (use False f t' in \<open>auto simp: sendMessage_first\<close>)
  qed
qed

lemma serial_append:
  "serial (fs @ gs) s =
     (case serial fs s of
        (Resolved vs, s') \<Rightarrow>
          (case serial gs s' of
             (Resolved ws, s'') \<Rightarrow> (Resolved (vs @ ws), s'')
           | (Rejected e, s'') \<Rightarrow> (Rejected e, s'')
           | (Pending, s'') \<Rightarrow> (Pending, s''))
      | (Rejected e, s') \<Rightarrow> (Rejected e, s')
      | (Pending, s') \<Rightarrow> (Pending, s'))"
  by (induction fs arbitrary: s) (auto split: prod.splits promise.splits)

lemma playback_run_Nil: "playback_run h tabId cb [] (n, tr) = (Resolved n, tr)"
  by (simp add: playback_run_def then_p_def)

lemma playback_run_Cons:
  "playback_run h tabId cb (doc # docs) st =
     (case playback_thunk h tabId cb doc st of
        (Resolved v, st') \<Rightarrow> playback_run h tabId cb docs st'
      | (Rejected e, st') \<Rightarrow> (Rejected e, snd st')
      | (Pending, st') \<Rightarrow> (Pending, snd st'))"
  by (auto simp: playback_run_def then_p_def split: prod.splits promise.splits)

lemma playback_run_append:
  "playback_run h tabId cb (pre @ post) st =
     (case serial (map (playback_thunk h tabId cb) pre) st of
        (Resolved vs, st') \<Rightarrow> playback_run h tabId cb post st'
      | (Rejected e, st') \<Rightarrow> (Rejected e, snd st')
      | (Pending, st') \<Rightarrow> (Pending, snd st'))"
  by (auto simp: playback_run_def then_p_def serial_append split: prod.splits promise.splits)

lemma thunk_truthy:
  "playback_main_promise h tabId doc st = (Resolved ok, (n, tr)) \<Longrightarrow> truthy ok \<Longrightarrow>
   playback_thunk h tabId cb doc st = (Resolved JUndefined, (n, tr))"
  by (simp add: playback_thunk_def then_p_def)

lemma thunk_no_callback:
  "playback_main_promise h tabId doc st = (Resolved ok, (n, tr)) \<Longrightarrow>
   playback_thunk h tabId None doc st = (Resolved JUndefined, (n, tr))"
  by (simp add: playback_thunk_def then_p_def split: bool.splits)

lemma thunk_callback:
  "playback_main_promise h tabId doc st = (Resolved ok, (n, tr)) \<Longrightarrow> \<not> truthy ok \<Longrightarrow>
   playback_thunk h tabId (Some callback) doc st
     = (case callback tr doc of None \<Rightarrow> Resolved JUndefined | Some thrown \<Rightarrow> Rejected thrown,
        (n, tr @ [OnPlaybackError doc]))"
  by (simp add: playback_thunk_def then_p_def split: option.splits)

lemma thunk_rejected:
  "playback_main_promise h tabId doc st = (Rejected e, st') \<Longrightarrow>
   playback_thunk h tabId cb doc st = (Rejected e, st')"
  by (simp add: playback_thunk_def then_p_def)

lemma thunk_returns:
  assumes "playback_main_promise h tabId doc st = (Resolved ok, (n, tr))"
    and "\<not> truthy ok \<longrightarrow> callback_returns cb tr doc"
  shows "playback_thunk h tabId cb doc st
     = (Resolved JUndefined, (n, tr @ (if truthy ok then [] else callback_events cb doc)))"
proof (cases "truthy ok")
  case True
  then show ?thesis using assms(1) by (simp add: thunk_truthy)
next
  case False
  show ?thesis
  proof (cases cb)
    case None
    then show ?thesis using assms(1) False by (simp add: thunk_no_callback callback_events_def)
  next
    case (Some callback)
    then show ?thesis using assms False
      by (simp add: thunk_callback callback_events_def callback_returns_def)
  qed
qed

lemma callbacks_return_None: "callbacks_return h tabId None docs st"
  by (induction docs arbitrary: st)
     (auto simp: callback_returns_def split: prod.splits promise.splits)

lemma playback_main_promise_extends:
  "\<exists>evs. playback_main_promise h tabId doc (n, tr)
      = (fst (playback_main_promise h tabId doc (n, tr)),
         (n + (if verb doc = DB_DOCUMENT_VERB_CREATE then 1
               else if verb doc = DB_DOCUMENT_VERB_DELETE then -1 else 0),
          tr @ evs)) \<and>
     (\<forall>e\<in>set evs. \<forall>d. e \<noteq> OnPlaybackError d)"
proof -
  have host: "\<forall>d. e \<noteq> OnPlaybackError d" if "is_host_call e" for e
    using that by (cases e) auto
  consider (c) "verb doc = DB_DOCUMENT_VERB_CREATE"
    | (d) "verb doc \<noteq> DB_DOCUMENT_VERB_CREATE" "verb doc = DB_DOCUMENT_VERB_DELETE"
    | (u) "verb doc \<noteq> DB_DOCUMENT_VERB_CREATE" "verb doc \<noteq> DB_DOCUMENT_VERB_DELETE"
    by blast
  then show ?thesis
  proof cases
    case c
    from sendMessage_extends obtain evs where
      "snd (createHighlight h tabId (opt_val (range_of doc)) (opt_str (className doc)) (JStr (doc_id doc)) tr) = tr @ evs"
      "\<forall>e\<in>set evs. is_host_call e"
      unfolding createHighlight_def by blast
    then show ?thesis using c host
      by (intro exI[of _ evs]) (auto simp: playback_main_promise_def in_closure_def split: prod.splits)
  next
    case d
    from sendMessage_extends obtain evs where
      "snd (deleteHighlight h tabId (opt_str (correspondingDocumentId doc)) tr) = tr @ evs"
      "\<forall>e\<in>set evs. is_host_call e"
      unfolding deleteHighlight_def by blast
    then show ?thesis using d host
      by (intro exI[of _ evs]) (auto simp: playback_main_promise_def in_closure_def split: prod.splits)
  next
    case u
    then show ?thesis
      by (intro exI[of _ "[ConsoleError ''unknown verb'']"])
         (simp add: playback_main_promise_def Promise_resolve_def)
  qed
qed

lemma playback_run_count:
  "operations_resolve h tabId cb docs (n, tr) \<Longrightarrow> callbacks_return h tabId cb docs (n, tr) \<Longrightarrow>
   fst (playback_run h tabId cb docs (n, tr)) = Resolved (n + net_count docs)"
proof (induction docs arbitrary: n tr)
  case Nil
  show ?case by (simp add: playback_run_Nil net_count_def)
next
  case (Cons doc docs)
  let ?n = "n + (if verb doc = DB_DOCUMENT_VERB_CREATE then 1
               else if verb doc = DB_DOCUMENT_VERB_DELETE then -1 else 0)"
  from playback_main_promise_extends[of h tabId doc n tr]
  obtain evs where m: "playback_main_promise h tabId doc (n, tr)
      = (fst (playback_main_promise h tabId doc (n, tr)), (?n, tr @ evs))" by blast
  from Cons.prems(1) obtain ok where ok: "fst (playback_main_promise h tabId doc (n, tr)) = Resolved ok"
    by (cases "fst (playback_main_promise h tabId doc (n, tr))")
       (auto split: prod.splits promise.splits)
  have main: "playback_main_promise h tabId doc (n, tr) = (Resolved ok, (?n, tr @ evs))"
    using m ok by simp
  have returns: "\<not> truthy ok \<longrightarrow> callback_returns cb (tr @ evs) doc"
    using Cons.prems(2) main by simp
  let ?tr = "(tr @ evs) @ (if truthy ok then [] else callback_events cb doc)"
  have thunk: "playback_thunk h tabId cb doc (n, tr) = (Resolved JUndefined, (?n, ?tr))"
    using thunk_returns[OF main returns] .
  have ops: "operations_resolve h tabId cb docs (?n, ?tr)"
    using Cons.prems(1) main thunk by simp
  have cbs: "callbacks_return h tabId cb docs (?n, ?tr)"
    using Cons.prems(2) main thunk by simp
  from Cons.IH[OF ops cbs]
  have "fst (playback_run h tabId cb docs (?n, ?tr)) = Resolved (?n + net_count docs)" .
  moreover have "DB_DOCUMENT_VERB_CREATE \<noteq> DB_DOCUMENT_VERB_DELETE"
    by (simp add: DB_DOCUMENT_VERB_CREATE_def DB_DOCUMENT_VERB_DELETE_def)
  ultimately show ?case
    using thunk by (simp add: playback_run_Cons net_count_def)
qed

text \<open>
  Claim C4, as amended. Playing back the empty list resolves to 0 and does
  nothing. For every list of entries whose operations all resolve, whatever
  they resolve to, and whose callback returns normally each time it is invoked,
  \<open>playbackDocuments\<close> resolves to the number of create entries minus the
  number of delete entries; without a callback the operations resolving is
  enough.
\<close>

theorem playback_net_count:
  "playbackDocuments h tabId [] cb tr = (Resolved 0, tr) \<and>
   (operations_resolve h tabId cb documents (0, tr) \<and>
    callbacks_return h tabId cb documents (0, tr) \<longrightarrow>
      fst (playbackDocuments h tabId documents cb tr) = Resolved (net_count documents)) \<and>
   (operations_resolve h tabId None documents (0, tr) \<longrightarrow>
      fst (playbackDocuments h tabId documents None tr) = Resolved (net_count documents))"
  using playback_run_count[of h tabId cb documents 0 tr]
    playback_run_count[of h tabId None documents 0 tr]
    callbacks_return_None[of h tabId documents "(0, tr)"]
  by (simp add: playbackDocuments_def playback_run_Nil)

text \<open>
  Claim C3, as amended. When the run has reached an entry (the entries before
  it went through) and the entry's operation resolves to a falsy value, the
  supplied callback is invoked with that entry, once (the operation itself
  only calls the host), and the counter keeps the entry's update. If the
  callback returns normally, the run goes on with the entries after it; if it
  throws, \<open>playbackDocuments\<close> rejects with what it threw and no later entry is
  attempted. When the operation rejects, \<open>playbackDocuments\<close> rejects with that
  error and the trace ends where the operation ended: no later entry is
  attempted.
\<close>

theorem playback_falsy_reported_rejection_aborts:
  "(serial (map (playback_thunk h tabId (Some callback)) pre) (0, tr) = (Resolved vs, (n0, tr0)) \<and>
    playback_main_promise h tabId doc (n0, tr0) = (Resolved ok, (n1, tr1)) \<and> \<not> truthy ok \<longrightarrow>
      (callback tr1 doc = None \<longrightarrow>
         playbackDocuments h tabId (pre @ doc # post) (Some callback) tr
           = playback_run h tabId (Some callback) post (n1, tr1 @ [OnPlaybackError doc])) \<and>
      (\<forall>thrown. callback tr1 doc = Some thrown \<longrightarrow>
         playbackDocuments h tabId (pre @ doc # post) (Some callback) tr
           = (Rejected thrown, tr1 @ [OnPlaybackError doc])) \<and>
      n1 = n0 + (if verb doc = DB_DOCUMENT_VERB_CREATE then 1
                 else if verb doc = DB_DOCUMENT_VERB_DELETE then -1 else 0) \<and>
      (\<exists>evs. tr1 = tr0 @ evs \<and> (\<forall>e\<in>set evs. \<forall>d. e \<noteq> OnPlaybackError d))) \<and>
   (serial (map (playback_thunk g tabId' cb) pre') (0, tr') = (Resolved vs', st') \<and>
    playback_main_promise g tabId' doc' st' = (Rejected err, (n', tr'')) \<longrightarrow>
      playbackDocuments g tabId' (pre' @ doc' # post') cb tr' = (Rejected err, tr''))"
proof (intro conjI impI allI)
  assume a: "serial (map (playback_thunk h tabId (Some callback)) pre) (0, tr) = (Resolved vs, (n0, tr0)) \<and>
    playback_main_promise h tabId doc (n0, tr0) = (Resolved ok, (n1, tr1)) \<and> \<not> truthy ok"
  then have thunk: "playback_thunk h tabId (Some callback) doc (n0, tr0)
     = (case callback tr1 doc of None \<Rightarrow> Resolved JUndefined | Some thrown \<Rightarrow> Rejected thrown,
        (n1, tr1 @ [OnPlaybackError doc]))"
    by (simp add: thunk_callback)
  {
    assume "callback tr1 doc = None"
    then show "playbackDocuments h tabId (pre @ doc # post) (Some callback) tr
           = playback_run h tabId (Some callback) post (n1, tr1 @ [OnPlaybackError doc])"
      using a thunk by (simp add: playbackDocuments_def playback_run_append playback_run_Cons)
  next
    fix thrown
    assume "callback tr1 doc = Some thrown"
    then show "playbackDocuments h tabId (pre @ doc # post) (Some callback) tr
           = (Rejected thrown, tr1 @ [OnPlaybackError doc])"
      using a thunk by (simp add: playbackDocuments_def playback_run_append playback_run_Cons)
  }
  from playback_main_promise_extends[of h tabId doc n0 tr0] a
  show "n1 = n0 + (if verb doc = DB_DOCUMENT_VERB_CREATE then 1
                 else if verb doc = DB_DOCUMENT_VERB_DELETE then -1 else 0)"
    by auto
  from playback_main_promise_extends[of h tabId doc n0 tr0] a
  show "\<exists>evs. tr1 = tr0 @ evs \<and> (\<forall>e\<in>set evs. \<forall>d. e \<noteq> OnPlaybackError d)"
    by auto
next
  assume "serial (map (playback_thunk g tabId' cb) pre') (0, tr') = (Resolved vs', st') \<and>
    playback_main_promise g tabId' doc' st' = (Rejected err, (n', tr''))"
  then show "playbackDocuments g tabId' (pre' @ doc' # post') cb tr' = (Rejected err, tr'')"
    by (simp add: playbackDocuments_def playback_run_append playback_run_Cons thunk_rejected)
qed

text \<open>
  Claim C2, as amended. For every entry whose verb is neither create nor
  delete, the operation logs "unknown verb", calls nothing, leaves the counter
  unchanged and resolves to \<open>false\<close>; the callback, when one is supplied, is
  therefore invoked once with the entry. When the run has reached the entry
  and the callback returns normally (or there is none), \<open>playbackDocuments\<close>
  goes on with the entries after it; when the callback throws,
  \<open>playbackDocuments\<close> rejects with what it threw and no later entry is
  attempted.
\<close>

theorem playback_unknown_verb_reported:
  "verb doc \<noteq> DB_DOCUMENT_VERB_CREATE \<and> verb doc \<noteq> DB_DOCUMENT_VERB_DELETE \<longrightarrow>
     playback_main_promise h tabId doc (n, tr)
       = (Resolved (JBool False), (n, tr @ [ConsoleError ''unknown verb''])) \<and>
     playback_thunk h tabId None doc (n, tr)
       = (Resolved JUndefined, (n, tr @ [ConsoleError ''unknown verb''])) \<and>
     playback_thunk h tabId (Some callback) doc (n, tr)
       = (case callback (tr @ [ConsoleError ''unknown verb'']) doc of
            None \<Rightarrow> Resolved JUndefined
          | Some thrown \<Rightarrow> Rejected thrown,
          (n, tr @ [ConsoleError ''unknown verb'', OnPlaybackError doc])) \<and>
     (serial (map (playback_thunk h tabId cb) pre) (0, tr0) = (Resolved vs, (n, tr)) \<and>
      callback_returns cb (tr @ [ConsoleError ''unknown verb'']) doc \<longrightarrow>
        playbackDocuments h tabId (pre @ doc # post) cb tr0
          = playback_run h tabId cb post
              (n, tr @ [ConsoleError ''unknown verb''] @ callback_events cb doc)) \<and>
     (serial (map (playback_thunk h tabId (Some callback)) pre) (0, tr0) = (Resolved vs, (n, tr)) \<and>
      callback (tr @ [ConsoleError ''unknown verb'']) doc = Some thrown \<longrightarrow>
        playbackDocuments h tabId (pre @ doc # post) (Some callback) tr0
          = (Rejected thrown, tr @ [ConsoleError ''unknown verb'', OnPlaybackError doc]))"
proof (intro impI)
  assume unknown: "verb doc \<noteq> DB_DOCUMENT_VERB_CREATE \<and> verb doc \<noteq> DB_DOCUMENT_VERB_DELETE"
  have main: "playback_main_promise h tabId doc (n, tr)
       = (Resolved (JBool False), (n, tr @ [ConsoleError ''unknown verb'']))"
    using unknown by (simp add: playback_main_promise_def Promise_resolve_def)
  have none: "playback_thunk h tabId None doc (n, tr)
       = (Resolved JUndefined, (n, tr @ [ConsoleError ''unknown verb'']))"
    using thunk_no_callback[OF main] .
  have some: "playback_thunk h tabId (Some callback) doc (n, tr)
       = (case callback (tr @ [ConsoleError ''unknown verb'']) doc of
            None \<Rightarrow> Resolved JUndefined
          | Some thrown \<Rightarrow> Rejected thrown,
          (n, tr @ [ConsoleError ''unknown verb'', OnPlaybackError doc]))"
    using thunk_callback[OF main, of callback] by simp
  have goes_on: "playbackDocuments h tabId (pre @ doc # post) cb tr0
          = playback_run h tabId cb post
              (n, tr @ [ConsoleError ''unknown verb''] @ callback_events cb doc)"
    if "serial (map (playback_thunk h tabId cb) pre) (0, tr0) = (Resolved vs, (n, tr)) \<and>
      callback_returns cb (tr @ [ConsoleError ''unknown verb'']) doc"
  proof -
    have "playback_thunk h tabId cb doc (n, tr)
        = (Resolved JUndefined, (n, (tr @ [ConsoleError ''unknown verb'']) @ callback_events cb doc))"
      using thunk_returns[OF main, of cb] that by simp
    then show ?thesis
      using that by (simp add: playbackDocuments_def playback_run_append playback_run_Cons)
  qed
  have aborts: "playbackDocuments h tabId (pre @ doc # post) (Some callback) tr0
          = (Rejected thrown, tr @ [ConsoleError ''unknown verb'', OnPlaybackError doc])"
    if "serial (map (playback_thunk h tabId (Some callback)) pre) (0, tr0) = (Resolved vs, (n, tr)) \<and>
      callback (tr @ [ConsoleError ''unknown verb'']) doc = Some thrown"
    using that some by (simp add: playbackDocuments_def playback_run_append playback_run_Cons)
  from main none some goes_on aborts
  show "playback_main_promise h tabId doc (n, tr)
       = (Resolved (JBool False), (n, tr @ [ConsoleError ''unknown verb''])) \<and>
     playback_thunk h tabId None doc (n, tr)
       = (Resolved JUndefined, (n, tr @ [ConsoleError ''unknown verb''])) \<and>
     playback_thunk h tabId (Some callback) doc (n, tr)
       = (case callback (tr @ [ConsoleError ''unknown verb'']) doc of
            None \<Rightarrow> Resolved JUndefined
          | Some thrown \<Rightarrow> Rejected thrown,
          (n, tr @ [ConsoleError ''unknown verb'', OnPlaybackError doc])) \<and>
     (serial (map (playback_thunk h tabId cb) pre) (0, tr0) = (Resolved vs, (n, tr)) \<and>
      callback_returns cb (tr @ [ConsoleError ''unknown verb'']) doc \<longrightarrow>
        playbackDocuments h tabId (pre @ doc # post) cb tr0
          = playback_run h tabId cb post
              (n, tr @ [ConsoleError ''unknown verb''] @ callback_events cb doc)) \<and>
     (serial (map (playback_thunk h tabId (Some callback)) pre) (0, tr0) = (Resolved vs, (n, tr)) \<and>
      callback (tr @ [ConsoleError ''unknown verb'']) doc = Some thrown \<longrightarrow>
        playbackDocuments h tabId (pre @ doc # post) (Some callback) tr0
          = (Rejected thrown, tr @ [ConsoleError ''unknown verb'', OnPlaybackError doc]))"
    by blast
qed

lemma present_after_injection [simp]: "content_script_present (injected tabId @ evs) tabId"
  by (simp add: content_script_present_def injected_def DEFAULT_SCRIPTS_def injection_simp)

lemma example_send:
  "tabId \<noteq> 0 \<Longrightarrow> content_script_present tr tabId \<Longrightarrow> example_response m \<noteq> JUndefined \<Longrightarrow>
   sendMessage example_host tabId m False tr = (Resolved (example_response m), tr @ [TabsSendMessage tabId m])"
  by (simp add: sendMessage_first sendMessageInternal_def example_host_def)

lemma example_create_main:
  "verb doc = ''create'' \<Longrightarrow>
   tabId \<noteq> 0 \<Longrightarrow>
   playback_main_promise example_host tabId doc (n, injected tabId @ evs)
     = (Resolved (JBool (range_of doc \<noteq> None \<and> range_of doc \<noteq> Some JUndefined)),
        (n + 1, injected tabId @ evs @ [TabsSendMessage tabId (create_message doc)]))"
  by (simp add: playback_main_promise_def in_closure_def createHighlight_def example_send
      example_response_def MESSAGE_ID_CREATE_HIGHLIGHT_def DB_DOCUMENT_VERB_CREATE_def
      create_message_def opt_val_def split: option.splits)

lemma example_delete_main:
  "verb doc = ''delete'' \<Longrightarrow>
   tabId \<noteq> 0 \<Longrightarrow>
   playback_main_promise example_host tabId doc (n, injected tabId @ evs)
     = (Resolved (JBool (correspondingDocumentId doc = Some ''h1'')),
        (n - 1, injected tabId @ evs @ [TabsSendMessage tabId (delete_message doc)]))"
  by (simp add: playback_main_promise_def in_closure_def deleteHighlight_def example_send
      example_response_def MESSAGE_ID_DELETE_HIGHLIGHT_def DB_DOCUMENT_VERB_CREATE_def
      DB_DOCUMENT_VERB_DELETE_def delete_message_def opt_str_def split: option.splits)

lemma example_refused_main:
  "verb doc = ''create'' \<Longrightarrow>
   playback_main_promise example_host 0 doc (n, tr)
     = (Rejected (Error ''Cannot access a chrome:// URL''),
        (n + 1, tr @ [TabsSendMessage 0 (create_message doc), injection 0 [] ''js/main/chrome_storage.js'']))"
  by (simp add: playback_main_promise_def in_closure_def createHighlight_def
      sendMessage_first sendMessage_retry sendMessageInternal_def example_host_def
      executeDefaultScript_def DEFAULT_SCRIPTS_def injection_simp then_p_def Object_assign_def
      MESSAGE_ID_CREATE_HIGHLIGHT_def DB_DOCUMENT_VERB_CREATE_def create_message_def)

lemma unknown_verb_main:
  "verb doc \<noteq> DB_DOCUMENT_VERB_CREATE \<Longrightarrow> verb doc \<noteq> DB_DOCUMENT_VERB_DELETE \<Longrightarrow>
   playback_main_promise h tabId doc (n, tr)
     = (Resolved (JBool False), (n, tr @ [ConsoleError ''unknown verb'']))"
  by (simp add: playback_main_promise_def Promise_resolve_def)

lemma example_verbs:
  "verb example_create = ''create''" "verb example_create_no_range = ''create''"
  "verb example_delete = ''delete''" "verb example_update = ''update''"
  by (simp_all add: example_create_def example_create_no_range_def example_delete_def
      example_update_def)

lemma example_fields:
  "range_of example_create \<noteq> None \<and> range_of example_create \<noteq> Some JUndefined"
  "range_of example_create_no_range = None"
  "correspondingDocumentId example_delete = Some ''h1''"
  by (simp_all add: example_create_def example_create_no_range_def example_delete_def)

lemma example_unknown:
  "playback_main_promise h tabId example_update (n, tr)
     = (Resolved (JBool False), (n, tr @ [ConsoleError ''unknown verb'']))"
  by (simp add: unknown_verb_main example_verbs DB_DOCUMENT_VERB_CREATE_def
      DB_DOCUMENT_VERB_DELETE_def)

lemma example_create_thunk:
  "tabId \<noteq> 0 \<Longrightarrow>
   playback_thunk example_host tabId cb example_create (n, injected tabId @ evs)
     = (Resolved JUndefined,
        (n + 1, injected tabId @ evs @ [TabsSendMessage tabId (create_message example_create)]))"
  using example_create_main[OF example_verbs(1), of tabId n evs]
  by (simp add: thunk_truthy example_fields)

lemma example_delete_thunk:
  "tabId \<noteq> 0 \<Longrightarrow>
   playback_thunk example_host tabId cb example_delete (n, injected tabId @ evs)
     = (Resolved JUndefined,
        (n - 1, injected tabId @ evs @ [TabsSendMessage tabId (delete_message example_delete)]))"
  using example_delete_main[OF example_verbs(3), of tabId n evs]
  by (simp add: thunk_truthy example_fields)

lemma example_no_range_main:
  "tabId \<noteq> 0 \<Longrightarrow>
   playback_main_promise example_host tabId example_create_no_range (n, injected tabId @ evs)
     = (Resolved (JBool False),
        (n + 1, injected tabId @ evs @ [TabsSendMessage tabId (create_message example_create_no_range)]))"
  using example_create_main[OF example_verbs(2), of tabId n evs]
  by (simp add: example_fields)

lemma example_no_range_thunk:
  "tabId \<noteq> 0 \<Longrightarrow>
   playback_thunk example_host tabId (Some callback) example_create_no_range (n, injected tabId @ evs)
     = (case callback (injected tabId @ evs
                        @ [TabsSendMessage tabId (create_message example_create_no_range)])
               example_create_no_range of
          None \<Rightarrow> Resolved JUndefined
        | Some thrown \<Rightarrow> Rejected thrown,
        (n + 1, injected tabId @ evs
                  @ [TabsSendMessage tabId (create_message example_create_no_range),
                     OnPlaybackError example_create_no_range]))"
  using thunk_callback[where callback = callback, OF example_no_range_main[of tabId n evs]]
  by simp

lemma example_update_thunk:
  "playback_thunk h tabId (Some callback) example_update (n, tr)
     = (case callback (tr @ [ConsoleError ''unknown verb'']) example_update of
          None \<Rightarrow> Resolved JUndefined
        | Some thrown \<Rightarrow> Rejected thrown,
        (n, tr @ [ConsoleError ''unknown verb'', OnPlaybackError example_update]))"
  using thunk_callback[where callback = callback, OF example_unknown[of h tabId n tr]]
  by simp

text \<open>
  Claim C2 as stated fails: the operation of an entry with verb \<open>update\<close>
  resolves to \<open>false\<close>, not \<open>true\<close>, and the callback is invoked for it.
\<close>

theorem playback_unknown_verb_counterexample:
  "playback_main_promise example_host 1 example_update (0, [])
     = (Resolved (JBool False), (0, [ConsoleError ''unknown verb''])) \<and>
   playbackDocuments example_host 1 [example_update] (Some returning_callback) []
     = (Resolved 0, [ConsoleError ''unknown verb'', OnPlaybackError example_update])"
  by (simp add: playbackDocuments_def playback_run_Cons playback_run_Nil example_unknown
      example_update_thunk returning_callback_def)

text \<open>
  Claim C3 as stated fails: on the example page, with a callback that throws,
  the create without a range resolves to \<open>false\<close>, the callback is invoked,
  \<open>playbackDocuments\<close> rejects with what the callback threw and the delete after
  it is never sent.
\<close>

theorem playback_falsy_reported_rejection_aborts_counterexample:
  "playback_main_promise example_host 2 example_create_no_range (0, injected 2)
     = (Resolved (JBool False),
        (1, injected 2 @ [TabsSendMessage 2 (create_message example_create_no_range)])) \<and>
   playbackDocuments example_host 2 [example_create_no_range, example_delete]
       (Some throwing_callback) (injected 2)
     = (Rejected (Error ''callback failed''),
        injected 2 @ [TabsSendMessage 2 (create_message example_create_no_range),
                      OnPlaybackError example_create_no_range])"
  using example_no_range_main[of 2 0 "[]"] example_no_range_thunk[of 2 throwing_callback 0 "[]"]
  by (simp add: playbackDocuments_def playback_run_Cons throwing_callback_def)

text \<open>
  Claim C4 as stated fails: the one operation of the run resolves (to
  \<open>false\<close>), the list holds one create and no delete, and with a callback that
  throws \<open>playbackDocuments\<close> rejects instead of resolving to 1.
\<close>

theorem playback_net_count_counterexample:
  "operations_resolve example_host 2 (Some throwing_callback) [example_create_no_range]
     (0, injected 2) \<and>
   net_count [example_create_no_range] = 1 \<and>
   playbackDocuments example_host 2 [example_create_no_range] (Some throwing_callback) (injected 2)
     = (Rejected (Error ''callback failed''),
        injected 2 @ [TabsSendMessage 2 (create_message example_create_no_range),
                      OnPlaybackError example_create_no_range])"
  using example_no_range_main[of 2 0 "[]"] example_no_range_thunk[of 2 throwing_callback 0 "[]"]
  by (simp add: playbackDocuments_def playback_run_Cons throwing_callback_def net_count_def
      example_verbs DB_DOCUMENT_VERB_CREATE_def DB_DOCUMENT_VERB_DELETE_def)

theorem playback_net_count_witness:
  "operations_resolve example_host 2 (Some returning_callback)
     [example_create, example_create_no_range, example_delete, example_update] (0, injected 2) \<and>
   callbacks_return example_host 2 (Some returning_callback)
     [example_create, example_create_no_range, example_delete, example_update] (0, injected 2) \<and>
   operations_resolve example_host 2 None
     [example_create, example_create_no_range, example_delete, example_update] (0, injected 2) \<and>
   net_count [example_create, example_create_no_range, example_delete, example_update] = 1 \<and>
   fst (playbackDocuments example_host 2
          [example_create, example_create_no_range, example_delete, example_update]
          (Some returning_callback) (injected 2))
     = Resolved 1 \<and>
   fst (playbackDocuments example_host 2
          [example_create, example_create_no_range, example_delete, example_update]
          None (injected 2))
     = Resolved 1"
proof -
  let ?docs = "[example_create, example_create_no_range, example_delete, example_update]"
  have mains: "playback_main_promise example_host 2 example_create (n, injected 2 @ evs)
      = (Resolved (JBool True),
         (n + 1, injected 2 @ evs @ [TabsSendMessage 2 (create_message example_create)]))"
    "playback_main_promise example_host 2 example_delete (n, injected 2 @ evs)
      = (Resolved (JBool True),
         (n - 1, injected 2 @ evs @ [TabsSendMessage 2 (delete_message example_delete)]))" for n evs
    using example_create_main[OF example_verbs(1), of 2 n evs]
      example_delete_main[OF example_verbs(3), of 2 n evs]
    by (simp_all add: example_fields)
  have first: "playback_main_promise example_host 2 example_create (0, injected 2)
      = (Resolved (JBool True),
         (1, injected 2 @ [TabsSendMessage 2 (create_message example_create)]))"
    "playback_thunk example_host 2 cb example_create (0, injected 2)
      = (Resolved JUndefined,
         (1, injected 2 @ [TabsSendMessage 2 (create_message example_create)]))" for cb
    using mains(1)[of 0 "[]"] example_create_thunk[of 2 cb 0 "[]"] by simp_all
  have ops: "operations_resolve example_host 2 (Some returning_callback) ?docs (0, injected 2)"
    by (simp add: first mains example_create_thunk example_delete_thunk example_no_range_main
        example_no_range_thunk example_unknown example_update_thunk returning_callback_def)
  have cbs: "callbacks_return example_host 2 (Some returning_callback) ?docs (0, injected 2)"
    by (simp add: first mains example_create_thunk example_delete_thunk example_no_range_main
        example_no_range_thunk example_unknown example_update_thunk returning_callback_def
        callback_returns_def)
  have ops': "operations_resolve example_host 2 None ?docs (0, injected 2)"
    by (simp add: first mains example_create_thunk example_delete_thunk example_no_range_main
        thunk_no_callback[OF example_no_range_main] example_unknown
        thunk_no_callback[OF example_unknown])
  have net: "net_count ?docs = 1"
    by (simp add: net_count_def example_verbs DB_DOCUMENT_VERB_CREATE_def
        DB_DOCUMENT_VERB_DELETE_def)
  from playback_net_count[of example_host 2 "Some returning_callback" "injected 2" ?docs]
    ops cbs ops' net
  show ?thesis by simp
qed

theorem playback_falsy_reported_rejection_aborts_witness:
  "playback_main_promise example_host 2 example_create_no_range
     (1, injected 2 @ [TabsSendMessage 2 (create_message example_create)])
     = (Resolved (JBool False),
        (2, injected 2 @ [TabsSendMessage 2 (create_message example_create),
                          TabsSendMessage 2 (create_message example_create_no_range)])) \<and>
   playbackDocuments example_host 2 [example_create, example_create_no_range, example_delete]
       (Some returning_callback) (injected 2)
     = (Resolved 1,
        injected 2 @ [TabsSendMessage 2 (create_message example_create),
                      TabsSendMessage 2 (create_message example_create_no_range),
                      OnPlaybackError example_create_no_range,
                      TabsSendMessage 2 (delete_message example_delete)]) \<and>
   playbackDocuments example_host 2 [example_create, example_create_no_range, example_delete]
       (Some throwing_callback) (injected 2)
     = (Rejected (Error ''callback failed''),
        injected 2 @ [TabsSendMessage 2 (create_message example_create),
                      TabsSendMessage 2 (create_message example_create_no_range),
                      OnPlaybackError example_create_no_range]) \<and>
   playback_main_promise example_host 0 example_create
     (0, [ConsoleError ''unknown verb'', OnPlaybackError example_update])
     = (Rejected (Error ''Cannot access a chrome:// URL''),
        (1, [ConsoleError ''unknown verb'', OnPlaybackError example_update,
             TabsSendMessage 0 (create_message example_create),
             injection 0 [] ''js/main/chrome_storage.js''])) \<and>
   playbackDocuments example_host 0 [example_update, example_create, example_delete]
       (Some returning_callback) []
     = (Rejected (Error ''Cannot access a chrome:// URL''),
        [ConsoleError ''unknown verb'', OnPlaybackError example_update,
         TabsSendMessage 0 (create_message example_create),
         injection 0 [] ''js/main/chrome_storage.js''])"
proof -
  let ?c = "TabsSendMessage 2 (create_message example_create)"
  let ?c' = "TabsSendMessage 2 (create_message example_create_no_range)"
  let ?refused = "[ConsoleError ''unknown verb'', OnPlaybackError example_update,
             TabsSendMessage 0 (create_message example_create),
             injection 0 [] ''js/main/chrome_storage.js'']"
  have pre: "serial (map (playback_thunk example_host 2 (Some callback)) [example_create]) (0, injected 2)
      = (Resolved [JUndefined], (1, injected 2 @ [?c]))" for callback
    using example_create_thunk[of 2 "Some callback" 0 "[]"] by simp
  have op: "playback_main_promise example_host 2 example_create_no_range (1, injected 2 @ [?c])
      = (Resolved (JBool False), (2, injected 2 @ [?c, ?c']))"
    using example_no_range_main[of 2 1 "[?c]"] by simp
  have rest: "playback_run example_host 2 (Some returning_callback) [example_delete]
        (2, (injected 2 @ [?c, ?c']) @ [OnPlaybackError example_create_no_range])
      = (Resolved 1, injected 2 @ [?c, ?c', OnPlaybackError example_create_no_range,
                       TabsSendMessage 2 (delete_message example_delete)])"
    using example_delete_thunk[of 2 "Some returning_callback" 2
        "[?c, ?c', OnPlaybackError example_create_no_range]"]
    by (simp add: playback_run_Cons playback_run_Nil)
  have pre': "serial (map (playback_thunk example_host 0 (Some returning_callback)) [example_update]) (0, [])
      = (Resolved [JUndefined], (0, [ConsoleError ''unknown verb'', OnPlaybackError example_update]))"
    by (simp add: example_update_thunk returning_callback_def)
  have op': "playback_main_promise example_host 0 example_create
       (0, [ConsoleError ''unknown verb'', OnPlaybackError example_update])
     = (Rejected (Error ''Cannot access a chrome:// URL''), (1, ?refused))"
    by (simp add: example_refused_main[OF example_verbs(1)])
  have returns: "returning_callback (injected 2 @ [?c, ?c']) example_create_no_range = None"
    and throws: "throwing_callback (injected 2 @ [?c, ?c']) example_create_no_range
      = Some (Error ''callback failed'')"
    by (simp_all add: returning_callback_def throwing_callback_def)
  note returning = playback_falsy_reported_rejection_aborts[where h = example_host and tabId = 2
      and callback = returning_callback
      and pre = "[example_create]" and tr = "injected 2" and vs = "[JUndefined]" and ?n0.0 = 1
      and ?tr0.0 = "injected 2 @ [?c]" and doc = example_create_no_range and ok = "JBool False"
      and ?n1.0 = 2 and ?tr1.0 = "injected 2 @ [?c, ?c']" and post = "[example_delete]"
      and g = example_host and tabId' = 0 and cb = "Some returning_callback"
      and pre' = "[example_update]" and tr' = "[]" and vs' = "[JUndefined]"
      and st' = "(0, [ConsoleError ''unknown verb'', OnPlaybackError example_update])"
      and doc' = example_create and err = "Error ''Cannot access a chrome:// URL''" and n' = 1
      and tr'' = ?refused and post' = "[example_delete]"]
  note throwing = playback_falsy_reported_rejection_aborts[where h = example_host and tabId = 2
      and callback = throwing_callback
      and pre = "[example_create]" and tr = "injected 2" and vs = "[JUndefined]" and ?n0.0 = 1
      and ?tr0.0 = "injected 2 @ [?c]" and doc = example_create_no_range and ok = "JBool False"
      and ?n1.0 = 2 and ?tr1.0 = "injected 2 @ [?c, ?c']" and post = "[example_delete]"
      and g = example_host and tabId' = 0 and cb = "Some returning_callback"
      and pre' = "[example_update]" and tr' = "[]" and vs' = "[JUndefined]"
      and st' = "(0, [ConsoleError ''unknown verb'', OnPlaybackError example_update])"
      and doc' = example_create and err = "Error ''Cannot access a chrome:// URL''" and n' = 1
      and tr'' = ?refused and post' = "[example_delete]"]
  have a: "playbackDocuments example_host 2 ([example_create] @ example_create_no_range # [example_delete])
       (Some returning_callback) (injected 2)
     = playback_run example_host 2 (Some returning_callback) [example_delete]
        (2, (injected 2 @ [?c, ?c']) @ [OnPlaybackError example_create_no_range])"
    using returning pre[of returning_callback] op returns by simp
  have b: "playbackDocuments example_host 2 ([example_create] @ example_create_no_range # [example_delete])
       (Some throwing_callback) (injected 2)
     = (Rejected (Error ''callback failed''),
        (injected 2 @ [?c, ?c']) @ [OnPlaybackError example_create_no_range])"
    using throwing pre[of throwing_callback] op throws by simp
  have c: "playbackDocuments example_host 0 ([example_update] @ example_create # [example_delete])
       (Some returning_callback) []
     = (Rejected (Error ''Cannot access a chrome:// URL''), ?refused)"
    using returning pre' op' by simp
  show ?thesis using a b c op op' rest by simp
qed

theorem playback_unknown_verb_reported_witness:
  "verb example_update \<noteq> DB_DOCUMENT_VERB_CREATE \<and> verb example_update \<noteq> DB_DOCUMENT_VERB_DELETE \<and>
   callback_returns (Some returning_callback) (injected 2 @ [ConsoleError ''unknown verb''])
     example_update \<and>
   throwing_callback (injected 2 @ [ConsoleError ''unknown verb'']) example_update
     = Some (Error ''callback failed'') \<and>
   playbackDocuments example_host 2 [example_update, example_create] (Some returning_callback)
       (injected 2)
     = (Resolved 1, injected 2 @ [ConsoleError ''unknown verb'', OnPlaybackError example_update,
                                  TabsSendMessage 2 (create_message example_create)]) \<and>
   playbackDocuments example_host 2 [example_update, example_create] (Some throwing_callback)
       (injected 2)
     = (Rejected (Error ''callback failed''),
        injected 2 @ [ConsoleError ''unknown verb'', OnPlaybackError example_update])"
proof -
  have v: "verb example_update \<noteq> DB_DOCUMENT_VERB_CREATE \<and> verb example_update \<noteq> DB_DOCUMENT_VERB_DELETE"
    by (simp add: example_verbs DB_DOCUMENT_VERB_CREATE_def DB_DOCUMENT_VERB_DELETE_def)
  have returns: "callback_returns (Some returning_callback)
      (injected 2 @ [ConsoleError ''unknown verb'']) example_update"
    by (simp add: callback_returns_def returning_callback_def)
  have throws: "throwing_callback (injected 2 @ [ConsoleError ''unknown verb'']) example_update
      = Some (Error ''callback failed'')"
    by (simp add: throwing_callback_def)
  note goes_on = playback_unknown_verb_reported[where doc = example_update and h = example_host
      and tabId = 2 and n = 0 and tr = "injected 2" and cb = "Some returning_callback"
      and callback = throwing_callback and thrown = "Error ''callback failed''" and pre = "[]"
      and ?tr0.0 = "injected 2" and vs = "[]" and post = "[example_create]"]
  have rest: "playback_run example_host 2 (Some returning_callback) [example_create]
      (0, injected 2 @ [ConsoleError ''unknown verb'', OnPlaybackError example_update])
     = (Resolved 1, injected 2 @ [ConsoleError ''unknown verb'', OnPlaybackError example_update,
                                  TabsSendMessage 2 (create_message example_create)])"
    using example_create_thunk[of 2 "Some returning_callback" 0
        "[ConsoleError ''unknown verb'', OnPlaybackError example_update]"]
    by (simp add: playback_run_Cons playback_run_Nil)
  show ?thesis using goes_on v returns throws rest by (simp add: callback_events_def)
qed

section \<open>Selection commands omit a falsy argument\<close>

lemma sendMessage_first_event:
  "\<exists>evs. snd (sendMessage h tabId message False tr) = tr @ TabsSendMessage tabId message # evs"
proof -
  obtain r t' where f: "sendMessageInternal h tabId message tr = (r, t')" by (metis prod.collapse)
  then have t': "t' = tr @ [TabsSendMessage tabId message]"
    using sendMessageInternal_trace[of h tabId message tr] by simp
  show ?thesis
  proof (cases r)
    case (Rejected e)
    from sendMessage_extends[of h tabId message True t'] obtain evs where
      "snd (sendMessage h tabId message True t') = t' @ evs" by blast
    then show ?thesis using f Rejected t' by (simp add: sendMessage_first)
  qed (use f t' in \<open>auto simp: sendMessage_first\<close>)
qed

lemma present_just_injected [simp]: "content_script_present (injected tabId) tabId"
  using present_after_injection[of tabId "[]"] by simp

text \<open>
  Claim C10. For every falsy argument (\<open>undefined\<close>, \<open>null\<close>, \<open>false\<close>, 0, NaN
  and the empty string alike) \<open>selectHighlight\<close> sends the request that has
  the \<open>id\<close> property only, which is the request that clears the selection; an
  empty-string identifier behaves as an absent one. For a truthy argument the
  request carries it as \<open>highlightId\<close>. \<open>selectRange\<close> does the same with
  \<open>xrange\<close>.
\<close>

theorem select_omits_field_for_falsy:
  "(\<not> truthy highlightId \<longrightarrow>
      selectHighlight h tabId highlightId
        = sendMessage h tabId [(''id'', JStr ''select_highlight'')] False \<and>
      (\<exists>evs. snd (selectHighlight h tabId highlightId tr)
         = tr @ TabsSendMessage tabId [(''id'', JStr ''select_highlight'')] # evs)) \<and>
   (truthy highlightId \<longrightarrow>
      (\<exists>evs. snd (selectHighlight h tabId highlightId tr)
         = tr @ TabsSendMessage tabId
                  [(''id'', JStr ''select_highlight''), (''highlightId'', highlightId)] # evs)) \<and>
   selectHighlight h tabId (JStr []) = selectHighlight h tabId JUndefined \<and>
   (\<not> truthy xrange \<longrightarrow>
      selectRange h tabId xrange
        = sendMessage h tabId [(''id'', JStr ''select_range'')] False \<and>
      (\<exists>evs. snd (selectRange h tabId xrange tr)
         = tr @ TabsSendMessage tabId [(''id'', JStr ''select_range'')] # evs)) \<and>
   (truthy xrange \<longrightarrow>
      (\<exists>evs. snd (selectRange h tabId xrange tr)
         = tr @ TabsSendMessage tabId
                  [(''id'', JStr ''select_range''), (''xrange'', xrange)] # evs))"
  using sendMessage_first_event[of h tabId _ tr]
  by (simp add: selectHighlight_def selectRange_def MESSAGE_ID_SELECT_HIGHLIGHT_def
      MESSAGE_ID_SELECT_RANGE_def)

theorem select_omits_field_for_falsy_witness:
  "\<not> truthy (JStr []) \<and> \<not> truthy (JNum 0) \<and> truthy (JStr ''h1'') \<and>
   selectHighlight example_host 2 (JStr []) (injected 2)
     = (Resolved JNull, injected 2 @ [TabsSendMessage 2 [(''id'', JStr ''select_highlight'')]]) \<and>
   selectRange example_host 2 (JNum 0) (injected 2)
     = (Resolved JNull, injected 2 @ [TabsSendMessage 2 [(''id'', JStr ''select_range'')]]) \<and>
   selectHighlight example_host 2 (JStr ''h1'') (injected 2)
     = (Resolved JNull,
        injected 2 @ [TabsSendMessage 2 [(''id'', JStr ''select_highlight''), (''highlightId'', JStr ''h1'')]]) \<and>
   selectRange example_host 2 (JObj []) (injected 2)
     = (Resolved JNull,
        injected 2 @ [TabsSendMessage 2 [(''id'', JStr ''select_range''), (''xrange'', JObj [])]])"
proof -
  have send: "example_response m \<noteq> JUndefined \<Longrightarrow>
      sendMessage example_host 2 m False (injected 2)
        = (Resolved (example_response m), injected 2 @ [TabsSendMessage 2 m])" for m
    using example_send[of 2 "injected 2" m] by simp
  have a: "sendMessage example_host 2 [(''id'', JStr ''select_highlight'')] False (injected 2)
      = (Resolved JNull, injected 2 @ [TabsSendMessage 2 [(''id'', JStr ''select_highlight'')]])"
    by (subst send) (simp_all add: example_response_def)
  have b: "sendMessage example_host 2 [(''id'', JStr ''select_range'')] False (injected 2)
      = (Resolved JNull, injected 2 @ [TabsSendMessage 2 [(''id'', JStr ''select_range'')]])"
    by (subst send) (simp_all add: example_response_def)
  have c: "selectHighlight example_host 2 (JStr ''h1'') (injected 2)
     = (Resolved JNull,
        injected 2 @ [TabsSendMessage 2 [(''id'', JStr ''select_highlight''), (''highlightId'', JStr ''h1'')]])"
    unfolding selectHighlight_def MESSAGE_ID_SELECT_HIGHLIGHT_def
    by (simp, subst send) (simp_all add: example_response_def)
  have d: "selectRange example_host 2 (JObj []) (injected 2)
     = (Resolved JNull,
        injected 2 @ [TabsSendMessage 2 [(''id'', JStr ''select_range''), (''xrange'', JObj [])]])"
    unfolding selectRange_def MESSAGE_ID_SELECT_RANGE_def
    by (simp, subst send) (simp_all add: example_response_def)
  show ?thesis
    using select_omits_field_for_falsy[of "JStr []" example_host 2 "injected 2" "JNum 0"]
      select_omits_field_for_falsy[of "JStr ''h1''" example_host 2 "injected 2" "JObj []"]
      a b c d
    by simp
qed

section \<open>The keys of the style and location comparators\<close>

lemma set_ranks_snoc:
  "set_ranks (ds @ [d]) m = AList.update (def_className d) (length ds) (set_ranks ds m)"
  by (simp add: set_ranks_def enumerate_append_eq)

lemma rank_of_snoc:
  "rank_of (ds @ [d]) c = (if def_className d = c then Some (length ds) else rank_of ds c)"
  by (simp add: rank_of_def enumerate_append_eq)

lemma map_of_set_ranks:
  "map_of (set_ranks ds m) c = (case rank_of ds c of Some i \<Rightarrow> Some i | None \<Rightarrow> map_of m c)"
proof (induction ds rule: rev_induct)
  case Nil
  show ?case by (simp add: set_ranks_def rank_of_def)
next
  case (snoc d ds)
  then show ?case
    by (simp add: set_ranks_snoc rank_of_snoc update_conv')
qed

lemma set_ranks_nonempty: "ds \<noteq> [] \<Longrightarrow> set_ranks ds m \<noteq> []"
proof (induction ds rule: rev_induct)
  case (snoc d ds)
  have "AList.update k v al \<noteq> []" for k :: string and v :: nat and al
    by (cases al) auto
  then show ?case by (simp add: set_ranks_snoc)
qed simp

lemma Map_get_set_ranks: "Map_get (set_ranks ds []) key = rank_key ds key"
  by (simp add: Map_get_def rank_key_def map_of_set_ranks split: option.splits)

lemma rank_of_Some:
  "rank_of ds c = Some i \<Longrightarrow>
     i < length ds \<and> def_className (ds ! i) = c \<and>
     (\<forall>j. i < j \<and> j < length ds \<longrightarrow> def_className (ds ! j) \<noteq> c)"
proof (induction ds arbitrary: i rule: rev_induct)
  case Nil
  then show ?case by (simp add: rank_of_def)
next
  case (snoc d ds)
  show ?case
  proof (cases "def_className d = c")
    case True
    with snoc.prems have "i = length ds" by (simp add: rank_of_snoc)
    then show ?thesis using True by (auto simp: less_Suc_eq)
  next
    case False
    with snoc.prems have r: "rank_of ds c = Some i" by (simp add: rank_of_snoc)
    from snoc.IH[OF r] have i: "i < length ds" "def_className (ds ! i) = c"
      "\<forall>j. i < j \<and> j < length ds \<longrightarrow> def_className (ds ! j) \<noteq> c" by auto
    have "def_className ((ds @ [d]) ! j) \<noteq> c" if "i < j" "j < length (ds @ [d])" for j
      using that i(3) False by (cases "j < length ds") (auto simp: nth_append)
    with i show ?thesis by (auto simp: nth_append)
  qed
qed

lemma rank_of_None: "rank_of ds c = None \<longleftrightarrow> c \<notin> def_className ` set ds"
proof (induction ds rule: rev_induct)
  case Nil
  show ?case by (simp add: rank_of_def)
next
  case (snoc d ds)
  then show ?case by (auto simp: rank_of_snoc)
qed

lemma style_first:
  "storage_getAll h tr = Resolved (Some ds) \<Longrightarrow>
   style_comparator h doc ([], tr)
     = (Resolved (rank_key ds (className doc)), (set_ranks ds [], tr @ [StorageGetAll]))"
  by (simp add: style_comparator_def then_p_def in_closure_def getAll_def Map_get_set_ranks)

lemma style_cached:
  "m \<noteq> [] \<Longrightarrow>
   style_comparator h doc (m, tr) = (Resolved (Map_get m (className doc)), (m, tr))"
  by (simp add: style_comparator_def Promise_resolve_def)

lemma invoke_each_cached:
  "m \<noteq> [] \<Longrightarrow>
   invoke_each (style_comparator h) docs (m, tr)
     = (map (\<lambda>d. Resolved (Map_get m (className d))) docs, (m, tr))"
  by (induction docs) (simp_all add: style_cached)

lemma style_keys_nonempty:
  assumes "storage_getAll h tr = Resolved (Some ds)" "ds \<noteq> []"
  shows "comparator_keys (getComparisonFunction h tabId ''style'') (doc # docs) tr
       = Inr (map (\<lambda>d. Resolved (rank_key ds (className d))) (doc # docs), tr @ [StorageGetAll])"
  using assms
  by (simp add: comparator_keys_def getComparisonFunction_def style_first
      invoke_each_cached set_ranks_nonempty Map_get_set_ranks)

lemma invoke_each_empty_store:
  "\<forall>t. storage_getAll h t = Resolved (Some []) \<Longrightarrow>
   invoke_each (style_comparator h) docs ([], tr)
     = (replicate (length docs) (Resolved JUndefined),
        ([], tr @ replicate (length docs) StorageGetAll))"
proof (induction docs arbitrary: tr)
  case Nil
  show ?case by simp
next
  case (Cons d docs)
  have "style_comparator h d ([], tr) = (Resolved JUndefined, ([], tr @ [StorageGetAll]))"
    using Cons.prems style_first[of h tr "[]" d]
    by (simp add: rank_key_def rank_of_def set_ranks_def split: option.splits)
  then show ?case using Cons.IH[OF Cons.prems, of "tr @ [StorageGetAll]"]
    by (simp add: replicate_append_same)
qed

text \<open>
  Claim C5, as amended. When the invocations are made one after another, each
  awaited before the next, and the first fetch resolves to a non-empty list of
  definitions, the style comparator fetches the list once, on the first
  invocation, and every invocation resolves to the rank of the entry's class
  name in that list: an index at which the list holds that class name (the
  last such index), or \<open>undefined\<close> when no definition bears it.
\<close>

theorem style_comparator_fetches_once:
  "(storage_getAll h tr = Resolved (Some definitions) \<and> definitions \<noteq> [] \<longrightarrow>
      comparator_keys (getComparisonFunction h tabId ''style'') (doc # docs) tr
        = Inr (map (\<lambda>d. Resolved (rank_key definitions (className d))) (doc # docs),
               tr @ [StorageGetAll])) \<and>
   (\<forall>c i. rank_of definitions c = Some i \<longrightarrow>
      i < length definitions \<and> def_className (definitions ! i) = c \<and>
      (\<forall>j. i < j \<and> j < length definitions \<longrightarrow> def_className (definitions ! j) \<noteq> c)) \<and>
   (\<forall>c. rank_of definitions c = None \<longleftrightarrow> c \<notin> def_className ` set definitions)"
  using style_keys_nonempty[of h tr definitions tabId doc docs]
    rank_of_Some[of definitions] rank_of_None[of definitions]
  by blast

lemma style_comparator_phases:
  "style_comparator h doc st =
     (case style_comparator_call h doc st of
        (invocation, st') \<Rightarrow> style_comparator_settle invocation doc st')"
  by (cases st)
     (simp add: style_comparator_def style_comparator_call_def style_comparator_settle_def
        then_p_def in_closure_def getAll_def)

text \<open>
  Claim C5 as stated fails twice. With a style store that holds no definition,
  two invocations, the second made after the first resolved, fetch the list
  twice. With the example store, which holds two definitions, two invocations
  made in the same turn (the second before the first fetch has settled) have
  both issued the fetch.
\<close>

theorem style_comparator_fetches_once_counterexample:
  "comparator_keys (getComparisonFunction empty_store_host 2 ''style'')
     [example_create, example_create] []
     = Inr ([Resolved JUndefined, Resolved JUndefined], [StorageGetAll, StorageGetAll]) \<and>
   snd (style_comparator_call example_host example_create
          (snd (style_comparator_call example_host example_create ([], []))))
     = ([], [StorageGetAll, StorageGetAll])"
proof -
  have "\<forall>t. storage_getAll empty_store_host t = Resolved (Some [])"
    by (simp add: empty_store_host_def)
  from invoke_each_empty_store[OF this, of "[example_create, example_create]" "[]"]
  show ?thesis
    by (simp add: comparator_keys_def getComparisonFunction_def style_comparator_call_def)
qed

text \<open>
  Claim C9. On a host whose style store always answers with the empty list,
  the captured map is still empty after any number of invocations, so each of
  them fetches the list again (as many fetches as invocations) and resolves to
  \<open>undefined\<close>; when the first fetch resolves to a non-empty list, one or more
  invocations, each awaited before the next, make one fetch.
\<close>

theorem style_comparator_empty_list_refetches:
  "((\<forall>t. storage_getAll h t = Resolved (Some [])) \<longrightarrow>
      comparator_keys (getComparisonFunction h tabId ''style'') docs tr
        = Inr (replicate (length docs) (Resolved JUndefined),
               tr @ replicate (length docs) StorageGetAll) \<and>
      fst (snd (invoke_each (style_comparator h) docs ([], tr))) = []) \<and>
   (storage_getAll g tr' = Resolved (Some definitions) \<and> definitions \<noteq> [] \<longrightarrow>
      (\<exists>keys. comparator_keys (getComparisonFunction g tabId' ''style'') (doc # docs') tr'
         = Inr (keys, tr' @ [StorageGetAll])))"
proof (intro conjI impI)
  assume empty: "\<forall>t. storage_getAll h t = Resolved (Some [])"
  from invoke_each_empty_store[OF empty, of docs tr]
  show "comparator_keys (getComparisonFunction h tabId ''style'') docs tr
        = Inr (replicate (length docs) (Resolved JUndefined),
               tr @ replicate (length docs) StorageGetAll)"
    by (simp add: comparator_keys_def getComparisonFunction_def)
  from invoke_each_empty_store[OF empty, of docs tr]
  show "fst (snd (invoke_each (style_comparator h) docs ([], tr))) = []"
    by simp
next
  assume "storage_getAll g tr' = Resolved (Some definitions) \<and> definitions \<noteq> []"
  then show "\<exists>keys. comparator_keys (getComparisonFunction g tabId' ''style'') (doc # docs') tr'
         = Inr (keys, tr' @ [StorageGetAll])"
    using style_keys_nonempty[of g tr' definitions tabId' doc docs'] by blast
qed

lemma example_ranks:
  "rank_key example_definitions (Some ''hl-red'') = JNum 0"
  "rank_key example_definitions (Some ''hl-yellow'') = JNum 1"
  "rank_key example_definitions None = JUndefined"
  by (simp_all add: rank_key_def rank_of_def example_definitions_def enumerate_eq_zip)

lemma example_classNames:
  "className example_create = Some ''hl-red''" "className example_update = Some ''hl-yellow''"
  "className example_create_no_range = Some ''hl-red''" "className example_delete = None"
  by (simp_all add: example_create_def example_create_no_range_def example_delete_def
      example_update_def)

theorem style_comparator_fetches_once_witness:
  "storage_getAll example_host [] = Resolved (Some example_definitions) \<and>
   example_definitions \<noteq> [] \<and>
   comparator_keys (getComparisonFunction example_host 2 ''style'')
     [example_create, example_update, example_create_no_range, example_delete] []
     = Inr ([Resolved (JNum 0), Resolved (JNum 1), Resolved (JNum 0), Resolved JUndefined],
            [StorageGetAll])"
proof -
  have a: "storage_getAll example_host [] = Resolved (Some example_definitions)"
    by (simp add: example_host_def)
  have b: "example_definitions \<noteq> []" by (simp add: example_definitions_def)
  show ?thesis
    using style_comparator_fetches_once[of example_host "[]" example_definitions 2
        example_create "[example_update, example_create_no_range, example_delete]"] a b
    by (simp add: example_ranks example_classNames)
qed

theorem style_comparator_empty_list_refetches_witness:
  "(\<forall>t. storage_getAll empty_store_host t = Resolved (Some [])) \<and>
   comparator_keys (getComparisonFunction empty_store_host 2 ''style'')
     [example_create, example_update, example_create] []
     = Inr ([Resolved JUndefined, Resolved JUndefined, Resolved JUndefined],
            [StorageGetAll, StorageGetAll, StorageGetAll]) \<and>
   storage_getAll example_host [] = Resolved (Some example_definitions) \<and>
   example_definitions \<noteq> [] \<and>
   (\<exists>keys. comparator_keys (getComparisonFunction example_host 2 ''style'')
      [example_create, example_update, example_create] []
      = Inr (keys, [StorageGetAll]))"
proof -
  have a: "\<forall>t. storage_getAll empty_store_host t = Resolved (Some [])"
    by (simp add: empty_store_host_def)
  have b: "storage_getAll example_host [] = Resolved (Some example_definitions)"
    by (simp add: example_host_def)
  have c: "example_definitions \<noteq> []" by (simp add: example_definitions_def)
  show ?thesis
    using style_comparator_empty_list_refetches[of empty_store_host 2
        "[example_create, example_update, example_create]" "[]"
        example_host "[]" example_definitions 2 example_create "[example_update, example_create]"]
      a b c
    by (simp add: numeral_3_eq_3)
qed

lemma location_present:
  assumes "isHighlightInDOM h tabId (JStr (doc_id doc)) tr = (Resolved isInDOM, tr1)"
    "truthy isInDOM"
    "getHighlightBoundingClientRect h tabId (JStr (doc_id doc)) tr1 = (Resolved rect, tr2)"
  shows "location_comparator h tabId doc tr = property_top rect tr2"
  using assms by (simp add: location_comparator_def then_p_def)

lemma location_absent:
  assumes "isHighlightInDOM h tabId (JStr (doc_id doc)) tr = (Resolved isInDOM, tr1)"
    "\<not> truthy isInDOM"
  shows "location_comparator h tabId doc tr = (Rejected (Error []), tr1)"
  using assms by (simp add: location_comparator_def then_p_def Promise_reject_def)

text \<open>
  Claim C6. When the content script answers the presence query with a truthy
  value and the bounding-rect query with a rect, the location comparator
  resolves to the rect's \<open>top\<close>; when it answers the presence query with a
  falsy value, the comparator rejects (with \<open>new Error()\<close>) and the rect is
  not asked for.
\<close>

theorem location_comparator_top_or_reject:
  "(isHighlightInDOM h tabId (JStr (doc_id doc)) tr = (Resolved isInDOM, tr1) \<and> truthy isInDOM \<and>
    getHighlightBoundingClientRect h tabId (JStr (doc_id doc)) tr1 = (Resolved (JObj rect), tr2) \<and>
    map_of rect ''top'' = Some top_coordinate \<longrightarrow>
      comparator_keys (getComparisonFunction h tabId ''location'') [doc] tr
        = Inr ([Resolved top_coordinate], tr2)) \<and>
   (isHighlightInDOM g tabId' (JStr (doc_id doc')) tr' = (Resolved absent, tr1') \<and> \<not> truthy absent \<longrightarrow>
      comparator_keys (getComparisonFunction g tabId' ''location'') [doc'] tr'
        = Inr ([Rejected (Error [])], tr1'))"
proof (intro conjI impI)
  assume a: "isHighlightInDOM h tabId (JStr (doc_id doc)) tr = (Resolved isInDOM, tr1) \<and> truthy isInDOM \<and>
    getHighlightBoundingClientRect h tabId (JStr (doc_id doc)) tr1 = (Resolved (JObj rect), tr2) \<and>
    map_of rect ''top'' = Some top_coordinate"
  then have "location_comparator h tabId doc tr = (Resolved top_coordinate, tr2)"
    using location_present[of h tabId doc tr isInDOM tr1 "JObj rect" tr2]
    by (simp add: Promise_resolve_def)
  then show "comparator_keys (getComparisonFunction h tabId ''location'') [doc] tr
        = Inr ([Resolved top_coordinate], tr2)"
    by (simp add: comparator_keys_def getComparisonFunction_def in_closure_def)
next
  assume "isHighlightInDOM g tabId' (JStr (doc_id doc')) tr' = (Resolved absent, tr1') \<and> \<not> truthy absent"
  then have "location_comparator g tabId' doc' tr' = (Rejected (Error []), tr1')"
    using location_absent[of g tabId' doc' tr' absent tr1'] by simp
  then show "comparator_keys (getComparisonFunction g tabId' ''location'') [doc'] tr'
        = Inr ([Rejected (Error [])], tr1')"
    by (simp add: comparator_keys_def getComparisonFunction_def in_closure_def)
qed

theorem location_comparator_top_or_reject_witness:
  "isHighlightInDOM example_host 2 (JStr (doc_id example_create)) (injected 2)
     = (Resolved (JBool True), injected 2 @ [TabsSendMessage 2 (in_dom_message example_create)]) \<and>
   comparator_keys (getComparisonFunction example_host 2 ''location'') [example_create] (injected 2)
     = Inr ([Resolved (JNum 120)],
            injected 2 @ [TabsSendMessage 2 (in_dom_message example_create),
                          TabsSendMessage 2 (rect_message example_create)]) \<and>
   isHighlightInDOM example_host 2 (JStr (doc_id example_create_no_range)) (injected 2)
     = (Resolved (JBool False),
        injected 2 @ [TabsSendMessage 2 (in_dom_message example_create_no_range)]) \<and>
   comparator_keys (getComparisonFunction example_host 2 ''location'') [example_create_no_range]
       (injected 2)
     = Inr ([Rejected (Error [])],
            injected 2 @ [TabsSendMessage 2 (in_dom_message example_create_no_range)])"
proof -
  let ?rect = "[(''top'', JNum 120), (''left'', JNum 8), (''width'', JNum 64), (''height'', JNum 18)]"
  have ids: "doc_id example_create = ''h1''" "doc_id example_create_no_range = ''h2''"
    by (simp_all add: example_create_def example_create_no_range_def)
  have a: "isHighlightInDOM example_host 2 (JStr (doc_id example_create)) (injected 2)
     = (Resolved (JBool True), injected 2 @ [TabsSendMessage 2 (in_dom_message example_create)])"
    unfolding isHighlightInDOM_def MESSAGE_ID_IS_HIGHLIGHT_IN_DOM_def in_dom_message_def
    by (subst example_send) (simp_all add: example_response_def ids)
  have b: "getHighlightBoundingClientRect example_host 2 (JStr (doc_id example_create))
       (injected 2 @ [TabsSendMessage 2 (in_dom_message example_create)])
     = (Resolved (JObj ?rect),
        injected 2 @ [TabsSendMessage 2 (in_dom_message example_create),
                      TabsSendMessage 2 (rect_message example_create)])"
    unfolding getHighlightBoundingClientRect_def MESSAGE_ID_GET_BOUNDING_CLIENT_RECT_def
      rect_message_def
    by (subst example_send) (simp_all add: example_response_def ids)
  have c: "isHighlightInDOM example_host 2 (JStr (doc_id example_create_no_range)) (injected 2)
     = (Resolved (JBool False),
        injected 2 @ [TabsSendMessage 2 (in_dom_message example_create_no_range)])"
    unfolding isHighlightInDOM_def MESSAGE_ID_IS_HIGHLIGHT_IN_DOM_def in_dom_message_def
    by (subst example_send) (simp_all add: example_response_def ids)
  note inst = location_comparator_top_or_reject[where h = example_host and tabId = 2
      and doc = example_create and tr = "injected 2" and isInDOM = "JBool True"
      and ?tr1.0 = "injected 2 @ [TabsSendMessage 2 (in_dom_message example_create)]"
      and rect = ?rect and top_coordinate = "JNum 120"
      and ?tr2.0 = "injected 2 @ [TabsSendMessage 2 (in_dom_message example_create),
                      TabsSendMessage 2 (rect_message example_create)]"
      and g = example_host and tabId' = 2 and doc' = example_create_no_range
      and tr' = "injected 2" and absent = "JBool False"
      and tr1' = "injected 2 @ [TabsSendMessage 2 (in_dom_message example_create_no_range)]"]
  show ?thesis using inst a b c by simp
qed

section \<open>The markdown overview\<close>

lemma markdown_entry_step:
  "markdown_entry ts (markdown, current) doc = (markdown @ spec_entry ts current doc, className doc)"
  by (simp add: markdown_entry_def spec_entry_def)

lemma markdown_loop:
  "fst (foldl (markdown_entry ts) (markdown, current) docs)
     = markdown @ concat (map (\<lambda>(previous, doc). spec_entry ts previous doc)
                            (zip (current # map className docs) docs))"
  by (induction docs arbitrary: markdown current) (simp_all add: markdown_entry_step)

lemma render_markdown:
  "overview_render h OVERVIEW_FORMAT_MARKDOWN invert (t, ts, docs) tr
     = (Resolved (spec_markdown t ts (if invert then rev docs else docs) @ markdown_footer h), tr)"
  by (simp add: overview_render_def Let_def markdown_loop spec_markdown_def Promise_resolve_def
      OVERVIEW_FORMAT_MARKDOWN_def OVERVIEW_FORMAT_MARKDOWN_NO_FOOTER_def)

lemma render_invert:
  "overview_render h format True (t, ts, docs) = overview_render h format False (t, ts, rev docs)"
  by (simp add: overview_render_def Let_def)

text \<open>
  Claim C7. In markdown mode, once the tab, the titles and the entries have
  been fetched, \<open>getFormattedOverviewText\<close> resolves to the top-level heading
  that links the tab's title to its URL, followed by the entries in final order
  (reversed under \<open>invert\<close>), each with a new \<open>##\<close> subheading exactly when
  its class name differs from the previous entry's, then its text as a list
  item; and the footer. An entry that shares the class name of the entry before
  it adds a blank line and its list item, no subheading; an entry with another
  class name adds a blank line, its subheading and its list item.
\<close>

theorem markdown_groups_by_className:
  "(overview_documents h db tabId comparator tr = (Resolved (t, ts, docs), tr') \<longrightarrow>
      getFormattedOverviewText h db tabId OVERVIEW_FORMAT_MARKDOWN comparator invert tr
        = (Resolved (spec_markdown t ts (if invert then rev docs else docs) @ markdown_footer h), tr')) \<and>
   (className d2 = className d1 \<longrightarrow>
      spec_markdown t ts (ds @ [d1, d2])
        = spec_markdown t ts (ds @ [d1]) @ newline @ newline @ ''* '' @ template (text_of d2)) \<and>
   (className d2 \<noteq> className d1 \<longrightarrow>
      spec_markdown t ts (ds @ [d1, d2])
        = spec_markdown t ts (ds @ [d1]) @ newline @ newline @ ''## ''
            @ template (titles_get ts (className d2)) @ newline @ ''* '' @ template (text_of d2))"
proof (intro conjI impI)
  assume "overview_documents h db tabId comparator tr = (Resolved (t, ts, docs), tr')"
  then show "getFormattedOverviewText h db tabId OVERVIEW_FORMAT_MARKDOWN comparator invert tr
        = (Resolved (spec_markdown t ts (if invert then rev docs else docs) @ markdown_footer h), tr')"
    by (simp add: getFormattedOverviewText_def then_p_def render_markdown)
next
  have snoc: "spec_markdown t ts (ds @ [d1, d2])
      = spec_markdown t ts (ds @ [d1]) @ spec_entry ts (className d1) d2"
  proof -
    have z: "zip (p # map className (ds @ [d1, d2])) (ds @ [d1, d2])
        = zip (p # map className (ds @ [d1])) (ds @ [d1]) @ [(className d1, d2)]" for p
      by (induction ds arbitrary: p) simp_all
    show ?thesis unfolding spec_markdown_def z by simp
  qed
  {
    assume "className d2 = className d1"
    then show "spec_markdown t ts (ds @ [d1, d2])
        = spec_markdown t ts (ds @ [d1]) @ newline @ newline @ ''* '' @ template (text_of d2)"
      by (simp add: snoc spec_entry_def)
  next
    assume "className d2 \<noteq> className d1"
    then show "spec_markdown t ts (ds @ [d1, d2])
        = spec_markdown t ts (ds @ [d1]) @ newline @ newline @ ''## ''
            @ template (titles_get ts (className d2)) @ newline @ ''* '' @ template (text_of d2)"
      by (simp add: snoc spec_entry_def)
  }
qed

text \<open>
  Claim C8. With \<open>invert\<close>, \<open>getFormattedOverviewText\<close> is the run without
  \<open>invert\<close> on the reversed entries: the same calls are made and the same
  entries fetched and sorted, and the entries rendered are those of the run
  without \<open>invert\<close>, in reverse order.
\<close>

theorem invert_reverses_final_order:
  "getFormattedOverviewText h db tabId format comparator True
     = then_p (overview_documents h db tabId comparator)
         (\<lambda>(t, ts, docs). overview_render h format False (t, ts, rev docs)) \<and>
   (overview_documents h db tabId comparator tr = (Resolved (t, ts, docs), tr') \<longrightarrow>
      getFormattedOverviewText h db tabId format comparator False tr
        = overview_render h format False (t, ts, docs) tr' \<and>
      getFormattedOverviewText h db tabId format comparator True tr
        = overview_render h format False (t, ts, rev docs) tr')"
proof -
  have "overview_render h format True = (\<lambda>(t, ts, docs). overview_render h format False (t, ts, rev docs))"
    by (auto simp: fun_eq_iff render_invert)
  then show ?thesis
    by (auto simp: getFormattedOverviewText_def then_p_def)
qed

lemma example_overview_documents:
  "overview_documents example_host example_db 2 (Some ()) []
     = (Resolved (example_tab, example_titles,
                  [example_create, example_create_no_range, example_yellow]),
        example_overview_trace)"
  by (simp add: overview_documents_def then_p_def get_def getAll_def example_host_def
      example_db_def example_definitions_def example_tab_def example_titles_def
      example_overview_trace_def Promise_resolve_def Let_def)

lemma example_texts:
  "className example_create = Some ''hl-red''" "text_of example_create = Some ''A''"
  "className example_create_no_range = Some ''hl-red''" "text_of example_create_no_range = Some ''B''"
  "className example_yellow = Some ''hl-yellow''" "text_of example_yellow = Some ''C''"
  by (simp_all add: example_create_def example_create_no_range_def example_yellow_def)

lemma example_titles_get:
  "titles_get example_titles (Some ''hl-red'') = Some ''Red''"
  "titles_get example_titles (Some ''hl-yellow'') = Some ''Yellow''"
  by (simp_all add: titles_get_def example_titles_def)

lemma example_footer: "markdown_footer example_host = newline @ newline @ ''---'' @ newline @ ''overview_footer''"
  by (simp add: markdown_footer_def example_host_def)

theorem markdown_groups_by_className_witness:
  "overview_documents example_host example_db 2 (Some ()) []
     = (Resolved (example_tab, example_titles,
                  [example_create, example_create_no_range, example_yellow]),
        example_overview_trace) \<and>
   className example_create_no_range = className example_create \<and>
   className example_yellow \<noteq> className example_create_no_range \<and>
   getFormattedOverviewText example_host example_db 2 ''markdown'' (Some ()) False []
     = (Resolved (''# [Example](https://example.org/a)'' @ newline @ newline @
                  ''## Red'' @ newline @
                  ''* A'' @ newline @ newline @
                  ''* B'' @ newline @ newline @
                  ''## Yellow'' @ newline @
                  ''* C'' @ newline @ newline @
                  ''---'' @ newline @ ''overview_footer''),
        example_overview_trace)"
proof -
  have same: "className example_create_no_range = className example_create"
    and differ: "className example_yellow \<noteq> className example_create_no_range"
    by (simp_all add: example_texts)
  note first = markdown_groups_by_className[where h = example_host and db = example_db
      and tabId = 2 and comparator = "Some ()" and tr = "[]" and t = example_tab
      and ts = example_titles and docs = "[example_create, example_create_no_range, example_yellow]"
      and tr' = example_overview_trace and invert = False
      and ds = "[]" and ?d1.0 = example_create and ?d2.0 = example_create_no_range]
  note second = markdown_groups_by_className[where h = example_host and db = example_db
      and tabId = 2 and comparator = "Some ()" and tr = "[]" and t = example_tab
      and ts = example_titles and docs = "[example_create, example_create_no_range, example_yellow]"
      and tr' = example_overview_trace and invert = False
      and ds = "[example_create]" and ?d1.0 = example_create_no_range and ?d2.0 = example_yellow]
  have one: "spec_markdown example_tab example_titles [example_create]
     = ''# [Example](https://example.org/a)'' @ newline @ newline @ ''## Red'' @ newline @ ''* A''"
    by (simp add: spec_markdown_def spec_entry_def example_texts example_tab_def
        example_titles_get template_def)
  have two: "spec_markdown example_tab example_titles [example_create, example_create_no_range]
     = spec_markdown example_tab example_titles [example_create] @ newline @ newline @ ''* B''"
    using first same by (simp add: example_texts template_def)
  have three: "spec_markdown example_tab example_titles
        [example_create, example_create_no_range, example_yellow]
     = spec_markdown example_tab example_titles [example_create, example_create_no_range]
         @ newline @ newline @ ''## Yellow'' @ newline @ ''* C''"
    using second differ
    by (simp add: example_texts template_def example_titles_get)
  have "getFormattedOverviewText example_host example_db 2 OVERVIEW_FORMAT_MARKDOWN (Some ()) False []
     = (Resolved (spec_markdown example_tab example_titles
                    [example_create, example_create_no_range, example_yellow]
                  @ markdown_footer example_host), example_overview_trace)"
    using first example_overview_documents by simp
  then show ?thesis
    using example_overview_documents same differ
    by (simp add: three two one example_footer OVERVIEW_FORMAT_MARKDOWN_def)
qed

theorem invert_reverses_final_order_witness:
  "overview_documents example_host example_db 2 (Some ()) []
     = (Resolved (example_tab, example_titles,
                  [example_create, example_create_no_range, example_yellow]),
        example_overview_trace) \<and>
   getFormattedOverviewText example_host example_db 2 ''markdown-no-footer'' (Some ()) False []
     = (Resolved (''# [Example](https://example.org/a)'' @ newline @ newline @
                  ''## Red'' @ newline @
                  ''* A'' @ newline @ newline @
                  ''* B'' @ newline @ newline @
                  ''## Yellow'' @ newline @
                  ''* C''),
        example_overview_trace) \<and>
   getFormattedOverviewText example_host example_db 2 ''markdown-no-footer'' (Some ()) True []
     = (Resolved (''# [Example](https://example.org/a)'' @ newline @ newline @
                  ''## Yellow'' @ newline @
                  ''* C'' @ newline @ newline @
                  ''## Red'' @ newline @
                  ''* B'' @ newline @ newline @
                  ''* A''),
        example_overview_trace)"
proof -
  note inst = invert_reverses_final_order[where h = example_host and db = example_db
      and tabId = 2 and format = "''markdown-no-footer''" and comparator = "Some ()"
      and tr = "[]" and t = example_tab and ts = example_titles
      and docs = "[example_create, example_create_no_range, example_yellow]"
      and tr' = example_overview_trace]
  have render: "overview_render example_host ''markdown-no-footer'' False
        (example_tab, example_titles, [a, b, c]) tr
      = (Resolved (''# [Example](https://example.org/a)''
           @ spec_entry example_titles None a
           @ spec_entry example_titles (className a) b
           @ spec_entry example_titles (className b) c), tr)" for a b c tr
    by (simp add: overview_render_def Let_def markdown_entry_step Promise_resolve_def
        OVERVIEW_FORMAT_MARKDOWN_def OVERVIEW_FORMAT_MARKDOWN_NO_FOOTER_def example_tab_def)
  show ?thesis
    using inst[THEN conjunct2] example_overview_documents
    by (simp add: render spec_entry_def example_texts template_def example_titles_get)
qed

end
